theory Spec2Isabelle
  imports Complex_Main "HOL-Library.Sublist" "HOL-Library.AList"
begin

section \<open>Python values used by the analysis pipeline\<close>

text \<open>
  Python integers are \<open>int\<close>, floats are \<open>real\<close>, a \<open>str\<close> is a \<open>string\<close> holding its
  UTF-8 bytes, a list is a list. A dictionary whose keys are fixed by the code is a record
  whose fields are options (\<open>None\<close>: the key is absent); a dictionary built key by key is an
  association list updated with \<open>AList.update\<close>, which keeps Python's insertion order.
\<close>

text \<open>\<open>needle in haystack\<close> on strings: the needle starts at some position.\<close>

fun py_in :: "string \<Rightarrow> string \<Rightarrow> bool" where
  "py_in s [] = (s = [])"
| "py_in s (c # cs) = (prefix s (c # cs) \<or> py_in s cs)"

text \<open>\<open>any(sus in s for sus in words)\<close>.\<close>

definition any_in :: "string list \<Rightarrow> string \<Rightarrow> bool" where
  "any_in words s = list_ex (\<lambda>sus. py_in sus s) words"

text \<open>
  \<open>str.lower()\<close> on the ASCII letters; the other bytes are kept (the few code points beyond
  ASCII that Python lowers to an ASCII letter are not modelled).
\<close>

definition lower_char :: "char \<Rightarrow> char" where
  "lower_char c =
     (case map_of (zip ''ABCDEFGHIJKLMNOPQRSTUVWXYZ'' ''abcdefghijklmnopqrstuvwxyz'') c of
        None \<Rightarrow> c
      | Some l \<Rightarrow> l)"

definition lower :: "string \<Rightarrow> string" where
  "lower s = map lower_char s"

text \<open>\<open>str(n)\<close> for an integer: its decimal digits, with a sign when negative.\<close>

definition digit_char :: "nat \<Rightarrow> char" where
  "digit_char d = ''0123456789'' ! d"

function str_nat :: "nat \<Rightarrow> string" where
  "str_nat n = (if n < 10 then [digit_char n] else str_nat (n div 10) @ [digit_char (n mod 10)])"
  by pat_completeness auto
termination
  by (relation "measure (\<lambda>n. n)") auto

declare str_nat.simps [simp del]

definition str_int :: "int \<Rightarrow> string" where
  "str_int i = (if i < 0 then CHR ''-'' # str_nat (nat (- i)) else str_nat (nat i))"

text \<open>\<open>d.get(key, default)\<close> on a field that may be absent.\<close>

definition get_or :: "'a option \<Rightarrow> 'a \<Rightarrow> 'a" where
  "get_or v d = (case v of None \<Rightarrow> d | Some x \<Rightarrow> x)"

text \<open>Truthiness of \<open>d.get(key)\<close> for a boolean and for a list.\<close>

definition truthy_bool :: "bool option \<Rightarrow> bool" where
  "truthy_bool v = (case v of None \<Rightarrow> False | Some b \<Rightarrow> b)"

definition truthy_list :: "'a list option \<Rightarrow> bool" where
  "truthy_list v = (case v of None \<Rightarrow> False | Some xs \<Rightarrow> xs \<noteq> [])"

text \<open>
  An exception is its class name and its message (\<open>str(e)\<close>). A call that may raise returns
  \<open>exn + 'a\<close>, with \<open>Inl\<close> for the raise. All of them are of class \<open>Exception\<close>.
\<close>

datatype exn = Exn string string

fun str_exn :: "exn \<Rightarrow> string" where
  "str_exn (Exn cls msg) = msg"

type_synonym bytes = string

text \<open>
  A fitted classifier of scikit-learn, as far as the code uses it: \<open>predict\<close> on a matrix
  of rows, \<open>predict_proba\<close> and \<open>feature_importances_\<close> when the object has them
  (\<open>hasattr\<close>), and the name of its class.
\<close>

type_synonym matrix = "real list list"

record model =
  m_predict :: "matrix \<Rightarrow> exn + real list"
  m_predict_proba :: "(matrix \<Rightarrow> exn + real list list) option"
  m_feature_importances :: "real list option"
  m_type_name :: string

text \<open>
  The objects that the attributes of the predictor and the entries of a saved bundle hold:
  \<open>None\<close>, a string or a model.
\<close>

datatype pyobj = PyNone | PyStr string | PyModel model

text \<open>
  A float is the real number it denotes. The operations \<open>-\<close>, \<open>*\<close> and \<open>/\<close> of binary64
  return the exact result rounded; the rounding function and \<open>math.log2\<close> are arguments of
  the model. (Infinities and NaN are left out: the computations below do not reach them.)
\<close>

record float_ops =
  fl_round :: "real \<Rightarrow> real"
  fl_log2 :: "real \<Rightarrow> real"

section \<open>The result dictionaries\<close>

subsection \<open>Static analysis result (modules/static\_analysis.py)\<close>

record file_info =
  fi_filename :: "string option"
  fi_size :: "int option"
  fi_md5 :: "string option"
  fi_sha1 :: "string option"
  fi_sha256 :: "string option"

record strings_info =
  st_total_strings :: "int option"
  st_strings :: "string list option"
  st_suspicious_strings :: "string list option"

record pe_headers =
  ph_machine :: "string option"
  ph_timestamp :: "int option"
  ph_number_of_sections :: "int option"
  ph_size_of_optional_header :: "int option"
  ph_characteristics :: "string option"
  ph_entry_point :: "string option"
  ph_image_base :: "string option"
  ph_section_alignment :: "int option"
  ph_file_alignment :: "int option"
  ph_subsystem :: "int option"

record suspicious_indicators =
  si_packed :: "bool option"
  si_unusual_sections :: "string list option"
  si_suspicious_imports :: "string list option"
  si_high_entropy :: "bool option"
  si_suspicious_strings_found :: "bool option"
  si_large_file :: "bool option"
  si_analysis_type :: "string option"
  si_suspicious_extension :: "bool option"

record static_result =
  s_file_info :: "file_info option"
  s_strings :: "strings_info option"
  s_entropy :: "real option"
  s_pe_headers :: "pe_headers option"
  s_imports :: "(string \<times> string list) list option"
  s_metadata :: "(string \<times> string) list option"
  s_suspicious_indicators :: "suspicious_indicators option"
  s_analysis_note :: "string option"

subsection \<open>Dynamic analysis result (modules/dynamic\_analysis.py)\<close>

record tcp_connection =
  tc_destination :: "string option"
  tc_port :: "int option"
  tc_protocol :: "string option"

record http_request =
  hr_url :: "string option"
  hr_method :: "string option"

record network_activity =
  na_tcp_connections :: "tcp_connection list option"
  na_dns_requests :: "string list option"
  na_http_requests :: "http_request list option"

record registry_value =
  rv_key :: "string option"
  rv_value :: "string option"
  rv_data :: "string option"

record registry_changes =
  rc_keys_created :: "string list option"
  rc_values_set :: "registry_value list option"
  rc_keys_deleted :: "string list option"

record file_operations =
  fo_files_created :: "string list option"
  fo_files_deleted :: "string list option"
  fo_files_modified :: "string list option"

record process =
  pr_name :: "string option"
  pr_command_line :: "string option"

record process_creation =
  pc_processes_created :: "process list option"
  pc_dlls_loaded :: "string list option"

record behavior =
  b_network_activity :: "network_activity option"
  b_registry_changes :: "registry_changes option"
  b_file_operations :: "file_operations option"
  b_process_creation :: "process_creation option"

record dynamic_result =
  d_filename :: "string option"
  d_analysis_timestamp :: "string option"
  d_behavior :: "behavior option"
  d_behavior_score :: "int option"
  d_risk_level :: "string option"

subsection \<open>Prediction result and assessment (modules/prediction\_engine.py)\<close>

record prediction_result =
  p_prediction :: "string option"
  p_confidence :: "real option"
  p_prediction_score :: "real option"
  p_error :: "string option"
  p_model_used :: "pyobj option"
  p_top_features :: "(string \<times> real) list option"

record assessment =
  risk_level :: string
  key_indicators :: "string list"
  recommendations :: "string list"

section \<open>DynamicAnalyzer.\_calculate\_behavior\_score\<close>

text \<open>Each block of the function adds to the running score; the blocks run in the source's order.\<close>

definition network_score :: "network_activity \<Rightarrow> int" where
  "network_score net =
     int (length (get_or (na_tcp_connections net) [])) * 2
     + int (length (get_or (na_http_requests net) [])) * 3
     + (\<Sum>req \<leftarrow> get_or (na_http_requests net) [].
          if py_in ''malicious'' (lower (get_or (hr_url req) '''')) then 10 else 0)"

definition registry_score :: "registry_changes \<Rightarrow> int" where
  "registry_score reg =
     int (length (get_or (rc_keys_created reg) [])) * 1
     + int (length (get_or (rc_values_set reg) [])) * 2
     + (\<Sum>key \<leftarrow> get_or (rc_keys_created reg) []. if py_in ''Run'' key then 15 else 0)"

definition file_score :: "file_operations \<Rightarrow> int" where
  "file_score files =
     int (length (get_or (fo_files_created files) [])) * 1
     + int (length (get_or (fo_files_deleted files) [])) * 3
     + int (length (get_or (fo_files_modified files) [])) * 2"

definition process_score :: "process_creation \<Rightarrow> int" where
  "process_score procs =
     (\<Sum>proc \<leftarrow> get_or (pc_processes_created procs) [].
        (if py_in ''cmd.exe'' (get_or (pr_name proc) '''') then 5 else 0)
        + (if py_in ''powershell'' (get_or (pr_name proc) '''') then 7 else 0))"

definition raw_behavior_score :: "behavior \<Rightarrow> int" where
  "raw_behavior_score b =
     (case b_network_activity b of None \<Rightarrow> 0 | Some net \<Rightarrow> network_score net)
     + (case b_registry_changes b of None \<Rightarrow> 0 | Some reg \<Rightarrow> registry_score reg)
     + (case b_file_operations b of None \<Rightarrow> 0 | Some files \<Rightarrow> file_score files)
     + (case b_process_creation b of None \<Rightarrow> 0 | Some procs \<Rightarrow> process_score procs)"

definition calculate_behavior_score :: "behavior \<Rightarrow> int" where
  "calculate_behavior_score b = min (raw_behavior_score b) 100"

section \<open>PredictionEngine.\_generate\_assessment\<close>

definition risk_of :: "prediction_result \<Rightarrow> string" where
  "risk_of p =
     (if p_prediction p = Some ''malicious'' then
        (if get_or (p_confidence p) 0 > 0.8 then ''HIGH''
         else if get_or (p_confidence p) 0 > 0.6 then ''MEDIUM''
         else ''LOW'')
      else ''SAFE'')"

definition static_indicators :: "static_result \<Rightarrow> string list" where
  "static_indicators s =
     (case s_suspicious_indicators s of
        None \<Rightarrow> []
      | Some si \<Rightarrow>
          (if truthy_bool (si_packed si) then [''File appears to be packed''] else [])
          @ (if truthy_bool (si_high_entropy si)
             then [''High entropy detected (possible encryption)''] else [])
          @ (if truthy_list (si_suspicious_imports si)
             then [''Suspicious API imports: ''
                   @ str_nat (length (get_or (si_suspicious_imports si) []))]
             else []))"

definition dynamic_indicators :: "dynamic_result \<Rightarrow> string list" where
  "dynamic_indicators d =
     (case d_behavior_score d of
        None \<Rightarrow> []
      | Some score \<Rightarrow>
          (if score > 50 then [''High behavior score: '' @ str_int score] else []))"

definition string_indicators :: "static_result \<Rightarrow> string list" where
  "string_indicators s =
     (case s_strings s of
        None \<Rightarrow> []
      | Some si \<Rightarrow>
          (let sus_strings = get_or (st_suspicious_strings si) [] in
           if sus_strings \<noteq> []
           then [''Suspicious strings found: '' @ str_nat (length sus_strings)] else []))"

definition recommendations_of :: "string \<Rightarrow> string list" where
  "recommendations_of level =
     (if level = ''HIGH'' then
        [''Do not execute this file'', ''Quarantine immediately'',
         ''Run additional scans with updated antivirus'']
      else if level = ''MEDIUM'' then
        [''Exercise extreme caution'', ''Scan with multiple antivirus engines'',
         ''Consider sandbox analysis'']
      else if level = ''LOW'' then
        [''Monitor file behavior if executed'', ''Verify file source and authenticity'']
      else [''File appears safe, but remain vigilant''])"

text \<open>
  With the fields typed as above no statement of the \<open>try\<close> block can raise, so the
  \<open>except\<close> branch (which adds an \<open>error\<close> key) is never taken.
\<close>

definition generate_assessment ::
  "static_result \<Rightarrow> dynamic_result \<Rightarrow> prediction_result \<Rightarrow> assessment" where
  "generate_assessment s d p =
     \<lparr> risk_level = risk_of p,
       key_indicators = static_indicators s @ dynamic_indicators d @ string_indicators s,
       recommendations = recommendations_of (risk_of p) \<rparr>"

section \<open>DynamicAnalyzer: the mock analysis used by the pipeline\<close>

text \<open>\<open>os.path.basename\<close> on a POSIX system: what follows the last \<open>/\<close>.\<close>

definition basename :: "string \<Rightarrow> string" where
  "basename path = rev (takeWhile (\<lambda>c. c \<noteq> CHR ''/'') (rev path))"

text \<open>
  A Windows path, written by its components: the string joins them with the backslash
  (byte \<open>0x5C\<close>).
\<close>

fun win_path :: "string list \<Rightarrow> string" where
  "win_path [] = []"
| "win_path [p] = p"
| "win_path (p # ps) = p @ CHR 0x5C # win_path ps"

definition mock_network_activity :: network_activity where
  "mock_network_activity =
     \<lparr> na_tcp_connections = Some
         [\<lparr> tc_destination = Some ''192.168.1.100'', tc_port = Some 80,
            tc_protocol = Some ''TCP'' \<rparr>,
          \<lparr> tc_destination = Some ''8.8.8.8'', tc_port = Some 53, tc_protocol = Some ''UDP'' \<rparr>],
       na_dns_requests = Some [''google.com'', ''microsoft.com''],
       na_http_requests = Some
         [\<lparr> hr_url = Some ''http://example.com/update'', hr_method = Some ''GET'' \<rparr>,
          \<lparr> hr_url = Some ''http://malicious-site.com/payload'',
            hr_method = Some ''POST'' \<rparr>] \<rparr>"

definition mock_registry_changes :: registry_changes where
  "mock_registry_changes =
     \<lparr> rc_keys_created = Some
         [win_path [''HKEY_CURRENT_USER'', ''Software'', ''MyApp''],
          win_path [''HKEY_LOCAL_MACHINE'', ''Software'', ''Microsoft'', ''Windows'',
                    ''CurrentVersion'', ''Run'', ''MyApp'']],
       rc_values_set = Some
         [\<lparr> rv_key = Some (win_path [''HKEY_CURRENT_USER'', ''Software'', ''MyApp'']),
            rv_value = Some ''AutoStart'', rv_data = Some ''1'' \<rparr>,
          \<lparr> rv_key = Some
              (win_path [''HKEY_LOCAL_MACHINE'', ''Software'', ''Microsoft'', ''Windows'',
                         ''CurrentVersion'', ''Run'']),
            rv_value = Some ''Malware'',
            rv_data = Some (win_path [''C:'', ''temp'', ''malware.exe'']) \<rparr>],
       rc_keys_deleted = Some [] \<rparr>"

definition mock_file_operations :: file_operations where
  "mock_file_operations =
     \<lparr> fo_files_created = Some
         [win_path [''C:'', ''temp'', ''malware.exe''],
          win_path [''C:'', ''Users'', ''User'', ''AppData'', ''Roaming'', ''config.dat'']],
       fo_files_deleted = Some
         [win_path [''C:'', ''Users'', ''User'', ''Documents'', ''important.doc'']],
       fo_files_modified = Some [win_path [''C:'', ''Windows'', ''System32'', ''hosts'']] \<rparr>"

definition mock_process_creation :: process_creation where
  "mock_process_creation =
     \<lparr> pc_processes_created = Some
         [\<lparr> pr_name = Some ''cmd.exe'', pr_command_line = Some ''cmd.exe /c whoami'' \<rparr>,
          \<lparr> pr_name = Some ''powershell.exe'',
            pr_command_line = Some ''powershell.exe -enc aGVsbG8='' \<rparr>],
       pc_dlls_loaded = Some [''kernel32.dll'', ''ntdll.dll'', ''advapi32.dll''] \<rparr>"

definition mock_behavior :: behavior where
  "mock_behavior =
     \<lparr> b_network_activity = Some mock_network_activity,
       b_registry_changes = Some mock_registry_changes,
       b_file_operations = Some mock_file_operations,
       b_process_creation = Some mock_process_creation \<rparr>"

definition determine_risk_level :: "int \<Rightarrow> string" where
  "determine_risk_level score =
     (if score \<ge> 70 then ''HIGH''
      else if score \<ge> 40 then ''MEDIUM''
      else if score \<ge> 20 then ''LOW''
      else ''MINIMAL'')"

text \<open>The clock (\<open>datetime.now().isoformat()\<close>) is an argument.\<close>

definition generate_mock_analysis :: "string \<Rightarrow> string \<Rightarrow> dynamic_result" where
  "generate_mock_analysis now filepath =
     (let behavior = mock_behavior;
          behavior_score = calculate_behavior_score behavior
      in \<lparr> d_filename = Some (basename filepath),
           d_analysis_timestamp = Some now,
           d_behavior = Some behavior,
           d_behavior_score = Some behavior_score,
           d_risk_level = Some (determine_risk_level behavior_score) \<rparr>)"

text \<open>The dynamic result's registry keys created, when the report has them.\<close>

definition keys_created_of :: "dynamic_result \<Rightarrow> string list" where
  "keys_created_of d =
     (case d_behavior d of
        None \<Rightarrow> []
      | Some b \<Rightarrow>
          (case b_registry_changes b of
             None \<Rightarrow> []
           | Some reg \<Rightarrow> get_or (rc_keys_created reg) []))"

section \<open>PredictionEngine.\_make\_prediction: the verdict returned on failure\<close>

definition prediction_failure :: "string \<Rightarrow> prediction_result" where
  "prediction_failure msg =
     \<lparr> p_prediction = Some ''unknown'',
       p_confidence = Some 0,
       p_prediction_score = None,
       p_error = Some (''Prediction failed: '' @ msg),
       p_model_used = Some (PyStr ''none''),
       p_top_features = Some [] \<rparr>"

text \<open>Sample inputs: a static result with no section, and verdicts of each kind.\<close>

definition no_static :: static_result where
  "no_static =
     \<lparr> s_file_info = None, s_strings = None, s_entropy = None, s_pe_headers = None,
       s_imports = None, s_metadata = None, s_suspicious_indicators = None,
       s_analysis_note = None \<rparr>"

definition verdict :: "string \<Rightarrow> real \<Rightarrow> prediction_result" where
  "verdict label conf =
     \<lparr> p_prediction = Some label, p_confidence = Some conf,
       p_prediction_score = Some (if label = ''malicious'' then 1 else 0), p_error = None,
       p_model_used = Some (PyStr ''random_forest''), p_top_features = Some [] \<rparr>"

section \<open>The libraries the static analyzer calls\<close>

subsection \<open>The object that \<open>pefile.PE\<close> returns, as far as the analyzer reads it\<close>
















section \<open>StaticAnalyzer (modules/static\_analysis.py)\<close>


subsection \<open>\_get\_file\_info\<close>


subsection \<open>\_extract\_pe\_headers\<close>


subsection \<open>\_extract\_imports\<close>





subsection \<open>\_extract\_strings\<close>








subsection \<open>\_calculate\_entropy\<close>

text \<open>
  \<open>Counter(data)\<close>: the byte values in the order of their first occurrence, each with the
  number of its occurrences.
\<close>

definition Counter :: "'a list \<Rightarrow> ('a \<times> nat) list" where
  "Counter xs = foldl (\<lambda>counts x. AList.map_default x 1 Suc counts) [] xs"

text \<open>
  One turn of the loop: \<open>probability = count / len(data)\<close> is the rounded quotient of the
  two integers, and \<open>entropy -= probability * math.log2(probability)\<close> rounds the product
  and then the difference.
\<close>

definition entropy_step :: "float_ops \<Rightarrow> nat \<Rightarrow> real \<Rightarrow> nat \<Rightarrow> real" where
  "entropy_step fl n entropy count =
     (let probability = fl_round fl (real count / real n)
      in fl_round fl (entropy - fl_round fl (probability * fl_log2 fl probability)))"

definition calculate_entropy :: "float_ops \<Rightarrow> bytes \<Rightarrow> real" where
  "calculate_entropy fl data =
     (if length data = 0 then 0
      else foldl (entropy_step fl (length data)) 0 (map snd (Counter data)))"

text \<open>
  What the proofs below use of binary64: rounding is monotone and returns every number
  \<open>k / 2 ^ j\<close> with \<open>\<bar>k\<bar> < 2 ^ 53\<close> and \<open>j \<le> 1074\<close> as it is (these are floats), and
  \<open>math.log2\<close> is exact at 1 and at 1/256 and is not positive on \<open>(0, 1]\<close>.
\<close>

definition binary64_rounding :: "float_ops \<Rightarrow> bool" where
  "binary64_rounding fl \<longleftrightarrow>
     (\<forall>x y. x \<le> y \<longrightarrow> fl_round fl x \<le> fl_round fl y)
     \<and> (\<forall>k j. \<bar>k\<bar> < 2 ^ 53 \<and> j \<le> 1074
            \<longrightarrow> fl_round fl (real_of_int k / 2 ^ j) = real_of_int k / 2 ^ j)
     \<and> fl_log2 fl 1 = 0
     \<and> fl_log2 fl (1 / 256) = - 8
     \<and> (\<forall>p. 0 < p \<and> p \<le> 1 \<longrightarrow> fl_log2 fl p \<le> 0)"

text \<open>Arithmetic without rounding, with the logarithm of the real numbers.\<close>

definition exact_arithmetic :: float_ops where
  "exact_arithmetic = \<lparr> fl_round = (\<lambda>x. x), fl_log2 = log 2 \<rparr>"

subsection \<open>\_extract\_metadata\<close>





subsection \<open>\_check\_if\_packed, \_check\_unusual\_sections, \_check\_suspicious\_imports\<close>











subsection \<open>\_check\_suspicious\_indicators and \_check\_basic\_suspicious\_indicators\<close>




subsection \<open>analyze\_file\<close>










definition empty_pe_headers :: pe_headers where
  "empty_pe_headers =
     \<lparr> ph_machine = None, ph_timestamp = None, ph_number_of_sections = None,
       ph_size_of_optional_header = None, ph_characteristics = None, ph_entry_point = None,
       ph_image_base = None, ph_section_alignment = None, ph_file_alignment = None,
       ph_subsystem = None \<rparr>"




subsection \<open>The import table of a parsed object\<close>





subsection \<open>Sample inputs of the static analyzer\<close>












section \<open>FeatureEngineer (modules/feature\_engineering.py)\<close>

text \<open>
  The feature dictionary: names with numeric values, in insertion order. \<open>int(text, 16)\<close> is
  an argument of the model; it may raise \<open>ValueError\<close>.
\<close>

type_synonym features = "(string \<times> real) list"

text \<open>\<open>d.update(other)\<close>.\<close>

definition dict_update :: "features \<Rightarrow> features \<Rightarrow> features" where
  "dict_update d other = foldl (\<lambda>acc kv. AList.update (fst kv) (snd kv) acc) d other"

definition truthy_str :: "string option \<Rightarrow> bool" where
  "truthy_str v = (case v of None \<Rightarrow> False | Some t \<Rightarrow> t \<noteq> [])"

subsection \<open>\_extract\_static\_features\<close>

definition file_size_features :: "static_result \<Rightarrow> features \<Rightarrow> features" where
  "file_size_features s fs =
     (case s_file_info s of
        None \<Rightarrow> fs
      | Some file_info \<Rightarrow>
          AList.update ''file_size'' (real_of_int (get_or (fi_size file_info) 0)) fs)"

definition pe_header_features ::
  "(string \<Rightarrow> exn + int) \<Rightarrow> static_result \<Rightarrow> features \<Rightarrow> exn + features" where
  "pe_header_features int16 s fs =
     (case s_pe_headers s of
        None \<Rightarrow> Inr fs
      | Some headers \<Rightarrow>
          (case (if truthy_str (ph_entry_point headers)
                 then int16 (get_or (ph_entry_point headers) ''0x0'') else Inr 0) of
             Inl e \<Rightarrow> Inl e
           | Inr entry_point \<Rightarrow>
               Inr (AList.update ''entry_point'' (real_of_int entry_point)
                     (AList.update ''size_of_optional_header''
                        (real_of_int (get_or (ph_size_of_optional_header headers) 0))
                        (AList.update ''number_of_sections''
                           (real_of_int (get_or (ph_number_of_sections headers) 0)) fs)))))"

definition suspicious_words :: "string list" where
  "suspicious_words = [''process'', ''memory'', ''registry'', ''internet'']"

text \<open>The counting loops over the DLLs and over their functions.\<close>

definition suspicious_count :: "(string \<times> string list) list \<Rightarrow> nat" where
  "suspicious_count imports =
     (\<Sum>(dll, functions) \<leftarrow> imports.
        length (filter (\<lambda>func. any_in suspicious_words (lower func)) functions))"

definition import_features :: "static_result \<Rightarrow> features \<Rightarrow> features" where
  "import_features s fs =
     (case s_imports s of
        None \<Rightarrow> fs
      | Some imports \<Rightarrow>
          AList.update ''suspicious_imports_count'' (real (suspicious_count imports))
            (AList.update ''number_of_imported_dlls'' (real (length (map fst imports)))
               (AList.update ''number_of_imports'' (real (length imports)) fs)))"

definition string_features :: "static_result \<Rightarrow> features \<Rightarrow> features" where
  "string_features s fs =
     (case s_strings s of
        None \<Rightarrow> fs
      | Some strings_info \<Rightarrow>
          AList.update ''suspicious_strings_count''
            (real (length (get_or (st_suspicious_strings strings_info) [])))
            (AList.update ''total_strings''
               (real_of_int (get_or (st_total_strings strings_info) 0)) fs))"

definition entropy_features :: "static_result \<Rightarrow> features \<Rightarrow> features" where
  "entropy_features s fs = AList.update ''entropy'' (get_or (s_entropy s) 0) fs"

definition indicator_features :: "static_result \<Rightarrow> features \<Rightarrow> features" where
  "indicator_features s fs =
     (case s_suspicious_indicators s of
        None \<Rightarrow> fs
      | Some indicators \<Rightarrow>
          AList.update ''high_entropy''
            (if get_or (si_high_entropy indicators) False then 1 else 0)
            (AList.update ''suspicious_api_count''
               (real (length (get_or (si_suspicious_imports indicators) [])))
               (AList.update ''unusual_sections_count''
                  (real (length (get_or (si_unusual_sections indicators) [])))
                  (AList.update ''is_packed''
                     (if get_or (si_packed indicators) False then 1 else 0) fs))))"

definition extract_static_features ::
  "(string \<Rightarrow> exn + int) \<Rightarrow> static_result \<Rightarrow> exn + features" where
  "extract_static_features int16 s =
     (case pe_header_features int16 s (file_size_features s []) of
        Inl e \<Rightarrow> Inl e
      | Inr fs \<Rightarrow>
          Inr (indicator_features s
                (entropy_features s (string_features s (import_features s fs)))))"

subsection \<open>\_extract\_dynamic\_features\<close>

definition behavior_score_features :: "dynamic_result \<Rightarrow> features \<Rightarrow> features" where
  "behavior_score_features d fs =
     (case d_behavior_score d of
        None \<Rightarrow> fs
      | Some score \<Rightarrow> AList.update ''behavior_score'' (real_of_int score) fs)"

definition network_features :: "behavior \<Rightarrow> features \<Rightarrow> features" where
  "network_features b fs =
     (case b_network_activity b of
        None \<Rightarrow> fs
      | Some net \<Rightarrow>
          AList.update ''http_requests_count'' (real (length (get_or (na_http_requests net) [])))
            (AList.update ''dns_requests_count''
               (real (length (get_or (na_dns_requests net) [])))
               (AList.update ''tcp_connections_count''
                  (real (length (get_or (na_tcp_connections net) []))) fs)))"

definition registry_features :: "behavior \<Rightarrow> features \<Rightarrow> features" where
  "registry_features b fs =
     (case b_registry_changes b of
        None \<Rightarrow> fs
      | Some reg \<Rightarrow>
          AList.update ''registry_keys_deleted''
            (real (length (get_or (rc_keys_deleted reg) [])))
            (AList.update ''registry_values_set''
               (real (length (get_or (rc_values_set reg) [])))
               (AList.update ''registry_keys_created''
                  (real (length (get_or (rc_keys_created reg) []))) fs)))"

definition file_features :: "behavior \<Rightarrow> features \<Rightarrow> features" where
  "file_features b fs =
     (case b_file_operations b of
        None \<Rightarrow> fs
      | Some files \<Rightarrow>
          AList.update ''files_modified_count''
            (real (length (get_or (fo_files_modified files) [])))
            (AList.update ''files_deleted_count''
               (real (length (get_or (fo_files_deleted files) [])))
               (AList.update ''files_created_count''
                  (real (length (get_or (fo_files_created files) []))) fs)))"

definition process_features :: "behavior \<Rightarrow> features \<Rightarrow> features" where
  "process_features b fs =
     (case b_process_creation b of
        None \<Rightarrow> fs
      | Some procs \<Rightarrow>
          AList.update ''dlls_loaded_count'' (real (length (get_or (pc_dlls_loaded procs) [])))
            (AList.update ''processes_created_count''
               (real (length (get_or (pc_processes_created procs) []))) fs))"

definition extract_dynamic_features :: "dynamic_result \<Rightarrow> features" where
  "extract_dynamic_features d =
     (case d_behavior d of
        None \<Rightarrow> behavior_score_features d []
      | Some b \<Rightarrow>
          process_features b
            (file_features b (registry_features b (network_features b
               (behavior_score_features d [])))))"

subsection \<open>extract\_features\<close>

text \<open>
  The dynamic result is \<open>None\<close> or a dictionary; an empty dictionary is skipped by
  \<open>if dynamic_analysis:\<close>, and gives the same features as a dictionary with none of its keys.
\<close>

definition extract_features ::
  "(string \<Rightarrow> exn + int) \<Rightarrow> static_result \<Rightarrow> dynamic_result option \<Rightarrow> exn + features" where
  "extract_features int16 s dyn =
     (case extract_static_features int16 s of
        Inl e \<Rightarrow> Inl e
      | Inr static_features \<Rightarrow>
          (case dyn of
             None \<Rightarrow> Inr (dict_update [] static_features)
           | Some d \<Rightarrow>
               Inr (dict_update (dict_update [] static_features)
                     (extract_dynamic_features d))))"

text \<open>The names that the two extraction functions can assign.\<close>

definition static_feature_names :: "string list" where
  "static_feature_names =
     [''file_size'', ''number_of_sections'', ''size_of_optional_header'', ''entry_point'',
      ''number_of_imports'', ''number_of_imported_dlls'', ''suspicious_imports_count'',
      ''total_strings'', ''suspicious_strings_count'', ''entropy'', ''is_packed'',
      ''unusual_sections_count'', ''suspicious_api_count'', ''high_entropy'']"

definition dynamic_feature_names :: "string list" where
  "dynamic_feature_names =
     [''behavior_score'', ''tcp_connections_count'', ''dns_requests_count'',
      ''http_requests_count'', ''registry_keys_created'', ''registry_values_set'',
      ''registry_keys_deleted'', ''files_created_count'', ''files_deleted_count'',
      ''files_modified_count'', ''processes_created_count'', ''dlls_loaded_count'']"

definition feature_names :: "string list" where
  "feature_names = static_feature_names @ dynamic_feature_names"

text \<open>
  A stand-in for \<open>int(text, 16)\<close> on the texts that \<open>hex\<close> writes: \<open>0x\<close> and hexadecimal
  digits; any other text raises.
\<close>

definition hex_digit_value :: "char \<Rightarrow> nat option" where
  "hex_digit_value c =
     map_of (zip ''0123456789abcdef'' [0, 1, 2, 3, 4, 5, 6, 7, 8, 9, 10, 11, 12, 13, 14, 15]) c"

fun hex_value :: "string \<Rightarrow> nat \<Rightarrow> nat option" where
  "hex_value [] acc = Some acc"
| "hex_value (c # cs) acc =
     (case hex_digit_value c of None \<Rightarrow> None | Some v \<Rightarrow> hex_value cs (16 * acc + v))"

definition int16_of_hex :: "string \<Rightarrow> exn + int" where
  "int16_of_hex t =
     (if prefix ''0x'' t \<and> drop 2 t \<noteq> [] then
        (case hex_value (drop 2 t) 0 of
           None \<Rightarrow> Inl (Exn ''ValueError'' ''invalid literal for int() with base 16'')
         | Some v \<Rightarrow> Inr (int v))
      else Inl (Exn ''ValueError'' ''invalid literal for int() with base 16''))"

text \<open>The names that the static block assigns: those of the sections the result has.\<close>

definition static_keys :: "static_result \<Rightarrow> string set" where
  "static_keys s =
     (if s_file_info s = None then {} else {''file_size''})
     \<union> (if s_pe_headers s = None then {}
        else {''number_of_sections'', ''size_of_optional_header'', ''entry_point''})
     \<union> (if s_imports s = None then {}
        else {''number_of_imports'', ''number_of_imported_dlls'', ''suspicious_imports_count''})
     \<union> (if s_strings s = None then {} else {''total_strings'', ''suspicious_strings_count''})
     \<union> {''entropy''}
     \<union> (if s_suspicious_indicators s = None then {}
        else {''is_packed'', ''unusual_sections_count'', ''suspicious_api_count'',
              ''high_entropy''})"

text \<open>The names that the dynamic block assigns, likewise.\<close>

definition behavior_keys :: "behavior \<Rightarrow> string set" where
  "behavior_keys b =
     (if b_network_activity b = None then {}
      else {''tcp_connections_count'', ''dns_requests_count'', ''http_requests_count''})
     \<union> (if b_registry_changes b = None then {}
        else {''registry_keys_created'', ''registry_values_set'', ''registry_keys_deleted''})
     \<union> (if b_file_operations b = None then {}
        else {''files_created_count'', ''files_deleted_count'', ''files_modified_count''})
     \<union> (if b_process_creation b = None then {}
        else {''processes_created_count'', ''dlls_loaded_count''})"

definition dynamic_keys :: "dynamic_result option \<Rightarrow> string set" where
  "dynamic_keys dyn =
     (case dyn of
        None \<Rightarrow> {}
      | Some d \<Rightarrow>
          (if d_behavior_score d = None then {} else {''behavior_score''})
          \<union> (case d_behavior d of None \<Rightarrow> {} | Some b \<Rightarrow> behavior_keys b))"

text \<open>
  Sample inputs in which every section is present and empty: the static result of a file
  with no readable field, and a dynamic report with a score of 0 and no event.
\<close>

definition blank_static :: static_result where
  "blank_static =
     \<lparr> s_file_info = Some \<lparr> fi_filename = None, fi_size = None, fi_md5 = None,
         fi_sha1 = None, fi_sha256 = None \<rparr>,
       s_strings = Some \<lparr> st_total_strings = None, st_strings = None,
         st_suspicious_strings = None \<rparr>,
       s_entropy = None,
       s_pe_headers = Some empty_pe_headers,
       s_imports = Some [],
       s_metadata = Some [],
       s_suspicious_indicators = Some \<lparr> si_packed = None, si_unusual_sections = None,
         si_suspicious_imports = None, si_high_entropy = None,
         si_suspicious_strings_found = None, si_large_file = None, si_analysis_type = None,
         si_suspicious_extension = None \<rparr>,
       s_analysis_note = None \<rparr>"

definition blank_dynamic :: dynamic_result where
  "blank_dynamic =
     \<lparr> d_filename = None, d_analysis_timestamp = None,
       d_behavior = Some
         \<lparr> b_network_activity = Some \<lparr> na_tcp_connections = None, na_dns_requests = None,
             na_http_requests = None \<rparr>,
           b_registry_changes = Some \<lparr> rc_keys_created = None, rc_values_set = None,
             rc_keys_deleted = None \<rparr>,
           b_file_operations = Some \<lparr> fo_files_created = None, fo_files_deleted = None,
             fo_files_modified = None \<rparr>,
           b_process_creation = Some \<lparr> pc_processes_created = None,
             pc_dlls_loaded = None \<rparr> \<rparr>,
       d_behavior_score = Some 0,
       d_risk_level = None \<rparr>"

section \<open>MLPredictor (modules/ml\_models.py)\<close>

record ml_predictor =
  best_model :: pyobj
  best_model_name :: pyobj

text \<open>The predictor that \<open>__init__\<close> builds.\<close>

definition new_predictor :: ml_predictor where
  "new_predictor = \<lparr> best_model = PyNone, best_model_name = PyNone \<rparr>"

definition quoted :: "string \<Rightarrow> string" where
  "quoted t = CHR 0x27 # t @ [CHR 0x27]"

definition predict :: "ml_predictor \<Rightarrow> matrix \<Rightarrow> exn + real list" where
  "predict mp X =
     (case best_model mp of
        PyNone \<Rightarrow> Inl (Exn ''ValueError'' ''No trained model available for prediction'')
      | PyModel m \<Rightarrow> m_predict m X
      | PyStr t \<Rightarrow>
          Inl (Exn ''AttributeError''
                (quoted ''str'' @ '' object has no attribute '' @ quoted ''predict'')))"

definition predict_proba :: "ml_predictor \<Rightarrow> matrix \<Rightarrow> exn + real list list" where
  "predict_proba mp X =
     (case best_model mp of
        PyModel m \<Rightarrow>
          (case m_predict_proba m of
             Some proba \<Rightarrow> proba X
           | None \<Rightarrow> Inl (Exn ''ValueError'' ''Model does not support probability prediction''))
      | _ \<Rightarrow> Inl (Exn ''ValueError'' ''Model does not support probability prediction''))"

subsection \<open>save\_best\_model and load\_model\<close>

text \<open>
  The files that \<open>joblib\<close> reads and writes: for each file name that exists, what
  \<open>joblib.load\<close> does with it, which is to raise or to return a dictionary. Writing a file
  is taken to succeed.
\<close>

type_synonym model_data = "(string \<times> pyobj) list"

type_synonym joblib_files = "string \<rightharpoonup> exn + model_data"

text \<open>\<open>type(obj).__name__\<close>.\<close>

definition type_name :: "pyobj \<Rightarrow> string" where
  "type_name obj =
     (case obj of PyNone \<Rightarrow> ''NoneType'' | PyStr t \<Rightarrow> ''str'' | PyModel m \<Rightarrow> m_type_name m)"

definition save_best_model :: "ml_predictor \<Rightarrow> string \<Rightarrow> joblib_files \<Rightarrow> joblib_files" where
  "save_best_model mp filename files =
     (if best_model mp \<noteq> PyNone then
        files(filename \<mapsto> Inr [(''model'', best_model mp),
                               (''model_name'', best_model_name mp),
                               (''model_type'', PyStr (type_name (best_model mp)))])
      else files)"

text \<open>
  The result is the returned flag and the predictor after the call. A missing file, an
  exception of \<open>joblib.load\<close> and a missing key all return \<open>False\<close>; the key
  \<open>model_name\<close> is read after \<open>best_model\<close> has been assigned.
\<close>

definition load_model :: "ml_predictor \<Rightarrow> string \<Rightarrow> joblib_files \<Rightarrow> bool \<times> ml_predictor" where
  "load_model mp filename files =
     (case files filename of
        None \<Rightarrow> (False, mp)
      | Some (Inl e) \<Rightarrow> (False, mp)
      | Some (Inr model_data) \<Rightarrow>
          (case map_of model_data ''model'' of
             None \<Rightarrow> (False, mp)
           | Some m \<Rightarrow>
               (case map_of model_data ''model_name'' of
                  None \<Rightarrow> (False, mp\<lparr>best_model := m\<rparr>)
                | Some n \<Rightarrow> (True, mp\<lparr>best_model := m, best_model_name := n\<rparr>))))"

section \<open>FeatureEngineer.process\_single\_sample\<close>

text \<open>
  The state of the feature engineer: its scaler, by what \<open>scaler.transform\<close> does with a
  one-row frame holding the given features (it raises when the scaler is not fitted or the
  columns do not fit), and the selection mask, \<open>None\<close> until features are selected.
  The values of the features are numbers, so \<open>fillna(0)\<close> changes nothing.
\<close>

record feature_engineer =
  scaler_transform :: "features \<Rightarrow> exn + matrix"
  selected_features :: "bool list option"

text \<open>\<open>X[:, mask]\<close> for a boolean mask: the mask has one entry for each column.\<close>

definition select_columns :: "bool list \<Rightarrow> matrix \<Rightarrow> exn + matrix" where
  "select_columns selected X =
     (if list_all (\<lambda>row. length row = length selected) X
      then Inr (map (\<lambda>row. map fst (filter snd (zip row selected))) X)
      else Inl (Exn ''IndexError'' ''boolean index did not match indexed array''))"

definition process_single_sample :: "feature_engineer \<Rightarrow> features \<Rightarrow> exn + matrix" where
  "process_single_sample fe features =
     (case scaler_transform fe features of
        Inl e \<Rightarrow> Inl e
      | Inr df_scaled \<Rightarrow>
          (case selected_features fe of
             None \<Rightarrow> Inr df_scaled
           | Some selected \<Rightarrow> select_columns selected df_scaled))"

section \<open>PredictionEngine.\_get\_top\_features and \_make\_prediction\<close>

text \<open>
  The loop over the five indices of highest importance (\<open>sorted\<close> with \<open>reverse=True\<close> is
  stable: equal importances keep the order of the indices).
\<close>

definition top_indices :: "real list \<Rightarrow> nat list" where
  "top_indices importances =
     take 5 (sort_key (\<lambda>i. - (importances ! i)) [0..<length importances])"

definition add_top_feature :: "features \<Rightarrow> features \<Rightarrow> nat \<Rightarrow> features" where
  "add_top_feature original_features top_features idx =
     (if idx < length original_features then
        (let feature_name = map fst original_features ! idx in
         case map_of original_features feature_name of
           None \<Rightarrow> top_features
         | Some v \<Rightarrow> AList.update feature_name v top_features)
      else top_features)"

definition get_top_features :: "ml_predictor \<Rightarrow> features \<Rightarrow> features" where
  "get_top_features mp original_features =
     (case best_model mp of
        PyModel m \<Rightarrow>
          (case m_feature_importances m of
             Some importances \<Rightarrow>
               foldl (add_top_feature original_features) [] (top_indices importances)
           | None \<Rightarrow> take 5 original_features)
      | _ \<Rightarrow> take 5 original_features)"

text \<open>\<open>max(probabilities)\<close>, which raises on an empty row.\<close>

definition py_max :: "real list \<Rightarrow> real option" where
  "py_max xs = (case xs of [] \<Rightarrow> None | x # rest \<Rightarrow> Some (foldl max x rest))"

text \<open>The inner \<open>try\<close>: any failure of the probability estimate gives 0.5.\<close>

definition confidence_of :: "ml_predictor \<Rightarrow> matrix \<Rightarrow> real" where
  "confidence_of mp processed_features =
     (case predict_proba mp processed_features of
        Inl e \<Rightarrow> 0.5
      | Inr rows \<Rightarrow>
          (case rows of
             [] \<Rightarrow> 0.5
           | probabilities # _ \<Rightarrow>
               (case py_max probabilities of None \<Rightarrow> 0.5 | Some c \<Rightarrow> c)))"

text \<open>\<open>round(x, 4)\<close>: to the nearest multiple of 0.0001, a tie going to the even one.\<close>

definition round4 :: "real \<Rightarrow> real" where
  "round4 x =
     (let y = x * 10000; f = \<lfloor>y\<rfloor> in
      real_of_int (if y - real_of_int f < 1 / 2 then f
                   else if y - real_of_int f > 1 / 2 then f + 1
                   else if even f then f else f + 1) / 10000)"

text \<open>\<open>best_model_name or 'unknown'\<close>.\<close>

definition name_or_unknown :: "pyobj \<Rightarrow> pyobj" where
  "name_or_unknown name =
     (case name of
        PyNone \<Rightarrow> PyStr ''unknown''
      | PyStr t \<Rightarrow> if t = [] then PyStr ''unknown'' else PyStr t
      | PyModel m \<Rightarrow> PyModel m)"

text \<open>The body of the outer \<open>try\<close>: it raises or returns the verdict.\<close>

definition make_prediction_body ::
  "feature_engineer \<Rightarrow> ml_predictor \<Rightarrow> features \<Rightarrow> exn + prediction_result" where
  "make_prediction_body fe mp features =
     (case process_single_sample fe features of
        Inl e \<Rightarrow> Inl e
      | Inr processed_features \<Rightarrow>
          (case predict mp processed_features of
             Inl e \<Rightarrow> Inl e
           | Inr predictions \<Rightarrow>
               (case predictions of
                  [] \<Rightarrow>
                    Inl (Exn ''IndexError'' ''index 0 is out of bounds for axis 0 with size 0'')
                | prediction # _ \<Rightarrow>
                    Inr \<lparr> p_prediction =
                            Some (if prediction = 1 then ''malicious'' else ''benign''),
                          p_confidence = Some (round4 (confidence_of mp processed_features)),
                          p_prediction_score = Some prediction,
                          p_error = None,
                          p_model_used = Some (name_or_unknown (best_model_name mp)),
                          p_top_features = Some (get_top_features mp features) \<rparr>)))"

definition make_prediction ::
  "feature_engineer \<Rightarrow> ml_predictor \<Rightarrow> features \<Rightarrow> prediction_result" where
  "make_prediction fe mp features =
     (case make_prediction_body fe mp features of
        Inl e \<Rightarrow> prediction_failure (str_exn e)
      | Inr result \<Rightarrow> result)"

subsection \<open>Sample models and feature engineers\<close>

text \<open>
  A stand-in for a fitted forest: it votes by the sign of the first column. The feature
  engineer that \<open>__init__\<close> builds has a scaler that is not fitted; the other one scales
  nothing.
\<close>

definition sample_model :: model where
  "sample_model =
     \<lparr> m_predict = (\<lambda>X. Inr (map (\<lambda>row. if 0 < hd row then 1 else 0) X)),
       m_predict_proba = Some (\<lambda>X. Inr (map (\<lambda>row. [0.25, 0.75]) X)),
       m_feature_importances = Some [0.2, 0.5, 0.3],
       m_type_name = ''RandomForestClassifier'' \<rparr>"

definition trained_predictor :: ml_predictor where
  "trained_predictor =
     \<lparr> best_model = PyModel sample_model, best_model_name = PyStr ''random_forest'' \<rparr>"

definition new_feature_engineer :: feature_engineer where
  "new_feature_engineer =
     \<lparr> scaler_transform =
         (\<lambda>features. Inl (Exn ''NotFittedError''
                             ''This StandardScaler instance is not fitted yet.'')),
       selected_features = None \<rparr>"

definition identity_feature_engineer :: feature_engineer where
  "identity_feature_engineer =
     \<lparr> scaler_transform = (\<lambda>features. Inr [map snd features]),
       selected_features = None \<rparr>"

section \<open>Properties of the behavior score and of the assessment\<close>

lemma raw_behavior_score_nonneg: "0 \<le> raw_behavior_score b"
  unfolding raw_behavior_score_def network_score_def registry_score_def file_score_def
    process_score_def
  by (auto split: option.splits intro!: add_nonneg_nonneg sum_list_nonneg)

text \<open>
  C9. For every behavior record, whatever event lists it holds, the behavior score is an
  integer between 0 and 100.
\<close>

theorem behavior_score_bounds:
  "0 \<le> calculate_behavior_score b \<and> calculate_behavior_score b \<le> 100"
  using raw_behavior_score_nonneg [of b] by (simp add: calculate_behavior_score_def)

text \<open>The mock report of the pipeline scores 60.\<close>

lemma mock_score: "calculate_behavior_score mock_behavior = 60"
  by (simp add: calculate_behavior_score_def raw_behavior_score_def network_score_def
      registry_score_def file_score_def process_score_def mock_behavior_def
      mock_network_activity_def mock_registry_changes_def mock_file_operations_def
      mock_process_creation_def get_or_def lower_def lower_char_def)

lemma str_int_60: "str_int 60 = ''60''"
  by (simp add: str_int_def str_nat.simps digit_char_def)

lemma sum_list_member_le:
  fixes f :: "'a \<Rightarrow> int"
  assumes "x \<in> set xs" and "\<And>y. 0 \<le> f y"
  shows "f x \<le> sum_list (map f xs)"
  using assms(1)
proof (induction xs)
  case Nil
  then show ?case by simp
next
  case (Cons a xs)
  have nn: "0 \<le> sum_list (map f xs)"
    by (rule sum_list_nonneg) (auto simp: assms(2))
  show ?case
  proof (cases "x = a")
    case True
    with nn show ?thesis by simp
  next
    case False
    with Cons have "f x \<le> sum_list (map f xs)" by simp
    with assms(2) [of a] show ?thesis by simp
  qed
qed

lemma run_key_scores:
  assumes "rc_keys_created reg = Some keys" and "key \<in> set keys" and "py_in ''Run'' key"
  shows "16 \<le> registry_score reg"
proof -
  let ?f = "\<lambda>k. if py_in ''Run'' k then (15::int) else 0"
  have "?f key \<le> sum_list (map ?f keys)"
    using assms(2) by (rule sum_list_member_le) simp
  with assms(3) have a: "15 \<le> sum_list (map ?f keys)" by simp
  from assms(2) have "keys \<noteq> []" by auto
  then have b: "1 \<le> int (length keys)" by (cases keys) auto
  from a b show ?thesis
    by (simp add: registry_score_def assms(1) get_or_def)
qed

text \<open>
  C6. The risk tier of the assessment: a malicious verdict with confidence above 0.8 is HIGH,
  with confidence above 0.6 (and not above 0.8) MEDIUM, any other malicious verdict LOW, and a
  benign verdict SAFE.
\<close>

theorem risk_tier_by_label_and_confidence:
  "(p_prediction p = Some ''malicious'' \<and> get_or (p_confidence p) 0 > 0.8
      \<longrightarrow> risk_level (generate_assessment s d p) = ''HIGH'')
   \<and> (p_prediction p = Some ''malicious'' \<and> get_or (p_confidence p) 0 > 0.6
        \<and> \<not> get_or (p_confidence p) 0 > 0.8
      \<longrightarrow> risk_level (generate_assessment s d p) = ''MEDIUM'')
   \<and> (p_prediction p = Some ''malicious'' \<and> \<not> get_or (p_confidence p) 0 > 0.6
      \<longrightarrow> risk_level (generate_assessment s d p) = ''LOW'')
   \<and> (p_prediction p = Some ''benign''
      \<longrightarrow> risk_level (generate_assessment s d p) = ''SAFE'')"
  by (simp add: generate_assessment_def risk_of_def)

theorem risk_tier_witness:
  "risk_level (generate_assessment no_static (generate_mock_analysis ''t'' ''a.exe'')
      (verdict ''malicious'' 0.9)) = ''HIGH''
   \<and> risk_level (generate_assessment no_static (generate_mock_analysis ''t'' ''a.exe'')
      (verdict ''malicious'' 0.7)) = ''MEDIUM''
   \<and> risk_level (generate_assessment no_static (generate_mock_analysis ''t'' ''a.exe'')
      (verdict ''malicious'' 0.6)) = ''LOW''
   \<and> risk_level (generate_assessment no_static (generate_mock_analysis ''t'' ''a.exe'')
      (verdict ''benign'' 0.9)) = ''SAFE''"
  using risk_tier_by_label_and_confidence
    [of "verdict ''malicious'' 0.9" no_static "generate_mock_analysis ''t'' ''a.exe''"]
    risk_tier_by_label_and_confidence
    [of "verdict ''malicious'' 0.7" no_static "generate_mock_analysis ''t'' ''a.exe''"]
    risk_tier_by_label_and_confidence
    [of "verdict ''malicious'' 0.6" no_static "generate_mock_analysis ''t'' ''a.exe''"]
    risk_tier_by_label_and_confidence
    [of "verdict ''benign'' 0.9" no_static "generate_mock_analysis ''t'' ''a.exe''"]
  by (simp add: verdict_def get_or_def)

text \<open>
  C10. A verdict whose label is not \<open>malicious\<close> gets the tier SAFE; this holds in
  particular for the \<open>unknown\<close> verdict that a failed inference returns.
\<close>

theorem non_malicious_is_safe:
  "(p_prediction p \<noteq> Some ''malicious''
      \<longrightarrow> risk_level (generate_assessment s d p) = ''SAFE'')
   \<and> risk_level (generate_assessment s d (prediction_failure msg)) = ''SAFE''"
  by (simp add: generate_assessment_def risk_of_def prediction_failure_def)

theorem non_malicious_is_safe_witness:
  "risk_level (generate_assessment no_static (generate_mock_analysis ''t'' ''a.exe'')
      (verdict ''benign'' 0.99)) = ''SAFE''
   \<and> risk_level (generate_assessment no_static (generate_mock_analysis ''t'' ''a.exe'')
      (prediction_failure ''no model'')) = ''SAFE''"
  using non_malicious_is_safe [of "verdict ''benign'' 0.99" no_static
      "generate_mock_analysis ''t'' ''a.exe''" "''no model''"]
  by (simp add: verdict_def)

text \<open>
  C5, as stated, fails: the mock report has a created registry key under the \<open>Run\<close> key,
  yet with a malicious verdict of confidence 0.5 the tier is LOW and the only indicator is the
  behavior score.
\<close>

theorem persistence_counterexample:
  "list_ex (py_in ''Run'') (keys_created_of (generate_mock_analysis ''t'' ''a.exe''))
   \<and> risk_level (generate_assessment no_static (generate_mock_analysis ''t'' ''a.exe'')
        (verdict ''malicious'' 0.5)) = ''LOW''
   \<and> key_indicators (generate_assessment no_static (generate_mock_analysis ''t'' ''a.exe'')
        (verdict ''malicious'' 0.5)) = [''High behavior score: 60'']"
proof -
  have "list_ex (py_in ''Run'') (keys_created_of (generate_mock_analysis ''t'' ''a.exe''))"
    by (simp add: keys_created_of_def generate_mock_analysis_def Let_def mock_behavior_def
        mock_registry_changes_def get_or_def)
  moreover have "risk_level (generate_assessment no_static
      (generate_mock_analysis ''t'' ''a.exe'') (verdict ''malicious'' 0.5)) = ''LOW''"
    by (simp add: generate_assessment_def risk_of_def verdict_def get_or_def)
  moreover have "key_indicators (generate_assessment no_static
      (generate_mock_analysis ''t'' ''a.exe'') (verdict ''malicious'' 0.5))
      = [''High behavior score: 60'']"
    by (simp add: generate_assessment_def static_indicators_def dynamic_indicators_def
        string_indicators_def no_static_def generate_mock_analysis_def Let_def mock_score str_int_60)
  ultimately show ?thesis by simp
qed

text \<open>
  C5, amended. A created registry key whose path contains \<open>Run\<close> brings at least 16 points
  to the registry part of the behavior score (1 for the key, 15 for the marker); a reported
  behavior score above 50 puts the entry \<open>High behavior score: n\<close> in the indicator list;
  the indicator list depends on the dynamic report through its behavior score only, so that no
  entry reports the registry keys themselves; and the risk tier is the same whatever the
  dynamic report is.
\<close>

theorem run_key_raises_score_only:
  "(rc_keys_created reg = Some keys \<and> key \<in> set keys \<and> py_in ''Run'' key
      \<longrightarrow> 16 \<le> registry_score reg)
   \<and> (d_behavior_score d = Some score \<and> score > 50
      \<longrightarrow> (''High behavior score: '' @ str_int score)
            \<in> set (key_indicators (generate_assessment s d p)))
   \<and> (d_behavior_score d' = d_behavior_score d
      \<longrightarrow> key_indicators (generate_assessment s d' p)
            = key_indicators (generate_assessment s d p))
   \<and> risk_level (generate_assessment s d p) = risk_level (generate_assessment s d' p)"
proof (intro conjI impI)
  assume "rc_keys_created reg = Some keys \<and> key \<in> set keys \<and> py_in ''Run'' key"
  then show "16 \<le> registry_score reg" using run_key_scores by blast
next
  assume "d_behavior_score d = Some score \<and> score > 50"
  then show "(''High behavior score: '' @ str_int score)
      \<in> set (key_indicators (generate_assessment s d p))"
    by (simp add: generate_assessment_def dynamic_indicators_def)
next
  assume "d_behavior_score d' = d_behavior_score d"
  then show "key_indicators (generate_assessment s d' p)
      = key_indicators (generate_assessment s d p)"
    by (simp add: generate_assessment_def dynamic_indicators_def)
next
  show "risk_level (generate_assessment s d p) = risk_level (generate_assessment s d' p)"
    by (simp add: generate_assessment_def)
qed

theorem run_key_raises_score_only_witness:
  "16 \<le> registry_score mock_registry_changes
   \<and> ''High behavior score: 60''
      \<in> set (key_indicators (generate_assessment no_static
          (generate_mock_analysis ''t'' ''a.exe'') (verdict ''malicious'' 0.5)))
   \<and> key_indicators (generate_assessment no_static
          ((generate_mock_analysis ''t'' ''a.exe'')\<lparr>d_behavior := None\<rparr>)
          (verdict ''malicious'' 0.5))
       = key_indicators (generate_assessment no_static
          (generate_mock_analysis ''t'' ''a.exe'') (verdict ''malicious'' 0.5))"
proof -
  let ?key = "win_path [''HKEY_LOCAL_MACHINE'', ''Software'', ''Microsoft'', ''Windows'',
                    ''CurrentVersion'', ''Run'', ''MyApp'']"
  let ?keys = "[win_path [''HKEY_CURRENT_USER'', ''Software'', ''MyApp''], ?key]"
  let ?d = "generate_mock_analysis ''t'' ''a.exe''"
  have k: "rc_keys_created mock_registry_changes = Some ?keys"
    by (simp add: mock_registry_changes_def)
  have r: "py_in ''Run'' ?key" by simp
  have sc: "d_behavior_score ?d = Some 60"
    by (simp add: generate_mock_analysis_def Let_def mock_score)
  have same: "d_behavior_score (?d\<lparr>d_behavior := None\<rparr>) = d_behavior_score ?d"
    by simp
  note inst = run_key_raises_score_only [where reg = mock_registry_changes and keys = ?keys
      and key = ?key and d = ?d and score = 60 and s = no_static
      and p = "verdict ''malicious'' 0.5" and d' = "?d\<lparr>d_behavior := None\<rparr>"]
  have mem: "?key \<in> set ?keys" by simp
  from inst k mem r have "16 \<le> registry_score mock_registry_changes"
    by blast
  moreover from inst sc have "(''High behavior score: '' @ str_int 60)
      \<in> set (key_indicators (generate_assessment no_static ?d (verdict ''malicious'' 0.5)))"
    by simp
  then have "''High behavior score: 60''
      \<in> set (key_indicators (generate_assessment no_static ?d (verdict ''malicious'' 0.5)))"
    by (simp add: str_int_60)
  moreover from inst same
  have "key_indicators (generate_assessment no_static (?d\<lparr>d_behavior := None\<rparr>)
          (verdict ''malicious'' 0.5))
       = key_indicators (generate_assessment no_static ?d (verdict ''malicious'' 0.5))"
    by blast
  ultimately show ?thesis by blast
qed

section \<open>Properties of the static analyzer\<close>
















section \<open>Properties of the feature extraction\<close>

lemma keys_update: "fst ` set (AList.update k v al) = insert k (fst ` set al)"
  by (simp add: dom_update)

lemma keys_file_size:
  "fst ` set (file_size_features s fs) =
     fst ` set fs \<union> (if s_file_info s = None then {} else {''file_size''})"
  by (simp add: file_size_features_def keys_update split: option.splits)

lemma keys_pe_header:
  assumes "pe_header_features int16 s fs = Inr fs'"
  shows "fst ` set fs' =
     fst ` set fs \<union> (if s_pe_headers s = None then {}
        else {''number_of_sections'', ''size_of_optional_header'', ''entry_point''})"
proof (cases "s_pe_headers s")
  case None
  with assms show ?thesis by (simp add: pe_header_features_def)
next
  case (Some headers)
  with assms obtain ep where
    "fs' = AList.update ''entry_point'' (real_of_int ep)
             (AList.update ''size_of_optional_header''
                (real_of_int (get_or (ph_size_of_optional_header headers) 0))
                (AList.update ''number_of_sections''
                   (real_of_int (get_or (ph_number_of_sections headers) 0)) fs))"
    by (auto simp add: pe_header_features_def split: sum.splits)
  with Some show ?thesis
    by (simp add: keys_update insert_commute)
qed

lemma keys_import:
  "fst ` set (import_features s fs) =
     fst ` set fs \<union> (if s_imports s = None then {}
        else {''number_of_imports'', ''number_of_imported_dlls'', ''suspicious_imports_count''})"
  by (auto simp add: import_features_def keys_update split: option.splits)

lemma keys_string:
  "fst ` set (string_features s fs) =
     fst ` set fs \<union> (if s_strings s = None then {}
        else {''total_strings'', ''suspicious_strings_count''})"
  by (auto simp add: string_features_def keys_update split: option.splits)

lemma keys_entropy:
  "fst ` set (entropy_features s fs) = fst ` set fs \<union> {''entropy''}"
  by (simp add: entropy_features_def keys_update)

lemma keys_indicator:
  "fst ` set (indicator_features s fs) =
     fst ` set fs \<union> (if s_suspicious_indicators s = None then {}
        else {''is_packed'', ''unusual_sections_count'', ''suspicious_api_count'',
              ''high_entropy''})"
  by (auto simp add: indicator_features_def keys_update split: option.splits)

lemma keys_static:
  assumes "extract_static_features int16 s = Inr fs"
  shows "fst ` set fs = static_keys s"
proof -
  from assms obtain fs0 where
    a: "pe_header_features int16 s (file_size_features s []) = Inr fs0"
    and b: "fs = indicator_features s (entropy_features s (string_features s
                   (import_features s fs0)))"
    by (auto simp add: extract_static_features_def split: sum.splits)
  have "fst ` set fs0 = (if s_file_info s = None then {} else {''file_size''})
     \<union> (if s_pe_headers s = None then {}
        else {''number_of_sections'', ''size_of_optional_header'', ''entry_point''})"
    using keys_pe_header [OF a] by (simp add: keys_file_size)
  then show ?thesis
    unfolding b keys_indicator keys_entropy keys_string keys_import static_keys_def
    by (simp add: Un_assoc)
qed

lemma distinct_file_size:
  "distinct (map fst fs) \<Longrightarrow> distinct (map fst (file_size_features s fs))"
  by (simp add: file_size_features_def distinct_update split: option.splits)

lemma distinct_pe_header:
  "pe_header_features int16 s fs = Inr fs' \<Longrightarrow> distinct (map fst fs)
   \<Longrightarrow> distinct (map fst fs')"
  by (auto simp add: pe_header_features_def distinct_update split: option.splits sum.splits)

lemma distinct_import:
  "distinct (map fst fs) \<Longrightarrow> distinct (map fst (import_features s fs))"
  by (simp add: import_features_def distinct_update split: option.splits)

lemma distinct_string:
  "distinct (map fst fs) \<Longrightarrow> distinct (map fst (string_features s fs))"
  by (simp add: string_features_def distinct_update split: option.splits)

lemma distinct_entropy:
  "distinct (map fst fs) \<Longrightarrow> distinct (map fst (entropy_features s fs))"
  by (simp add: entropy_features_def distinct_update)

lemma distinct_indicator:
  "distinct (map fst fs) \<Longrightarrow> distinct (map fst (indicator_features s fs))"
  by (simp add: indicator_features_def distinct_update split: option.splits)

lemma distinct_static:
  assumes "extract_static_features int16 s = Inr fs"
  shows "distinct (map fst fs)"
proof -
  from assms obtain fs0 where
    a: "pe_header_features int16 s (file_size_features s []) = Inr fs0"
    and b: "fs = indicator_features s (entropy_features s (string_features s
                   (import_features s fs0)))"
    by (auto simp add: extract_static_features_def split: sum.splits)
  have "distinct (map fst fs0)"
    by (rule distinct_pe_header [OF a]) (simp add: distinct_file_size)
  then show ?thesis
    unfolding b
    by (intro distinct_indicator distinct_entropy distinct_string distinct_import)
qed

lemma keys_dict_update: "fst ` set (dict_update d other) = fst ` set d \<union> fst ` set other"
  unfolding dict_update_def
  by (induction other arbitrary: d) (auto simp add: keys_update)

lemma distinct_dict_update:
  "distinct (map fst d) \<Longrightarrow> distinct (map fst (dict_update d other))"
  unfolding dict_update_def
  by (induction other arbitrary: d) (simp_all add: distinct_update)

lemma map_of_dict_update:
  "distinct (map fst other) \<Longrightarrow> map_of (dict_update d other) = map_of d ++ map_of other"
  unfolding dict_update_def
proof (induction other arbitrary: d)
  case Nil
  then show ?case by simp
next
  case (Cons kv other)
  obtain k v where kv: "kv = (k, v)" by (cases kv)
  from Cons.prems kv have k: "k \<notin> fst ` set other" and d: "distinct (map fst other)"
    by auto
  from k have none: "map_of other k = None" by (simp add: map_of_eq_None_iff)
  have swap: "(map_of d)(k \<mapsto> v) ++ map_of other = map_of d ++ (map_of other)(k \<mapsto> v)"
  proof
    fix x
    show "((map_of d)(k \<mapsto> v) ++ map_of other) x = (map_of d ++ (map_of other)(k \<mapsto> v)) x"
      using none by (cases "x = k") (simp_all add: map_add_def split: option.splits)
  qed
  have "map_of (foldl (\<lambda>acc kv. AList.update (fst kv) (snd kv) acc) d (kv # other))
      = map_of (foldl (\<lambda>acc kv. AList.update (fst kv) (snd kv) acc) (AList.update k v d) other)"
    by (simp add: kv)
  also have "\<dots> = map_of (AList.update k v d) ++ map_of other"
    by (rule Cons.IH [OF d])
  also have "\<dots> = (map_of d)(k \<mapsto> v) ++ map_of other"
    by (simp only: update_conv')
  also have "\<dots> = map_of d ++ (map_of other)(k \<mapsto> v)"
    by (rule swap)
  also have "(map_of other)(k \<mapsto> v) = map_of (kv # other)"
    by (simp add: kv)
  finally show ?case .
qed

lemma keys_behavior_score:
  "fst ` set (behavior_score_features d fs) =
     fst ` set fs \<union> (if d_behavior_score d = None then {} else {''behavior_score''})"
  by (simp add: behavior_score_features_def keys_update split: option.splits)

lemma keys_network:
  "fst ` set (network_features b fs) =
     fst ` set fs \<union> (if b_network_activity b = None then {}
      else {''tcp_connections_count'', ''dns_requests_count'', ''http_requests_count''})"
  by (simp add: network_features_def keys_update insert_commute split: option.splits)

lemma keys_registry:
  "fst ` set (registry_features b fs) =
     fst ` set fs \<union> (if b_registry_changes b = None then {}
        else {''registry_keys_created'', ''registry_values_set'', ''registry_keys_deleted''})"
  by (simp add: registry_features_def keys_update insert_commute split: option.splits)

lemma keys_file:
  "fst ` set (file_features b fs) =
     fst ` set fs \<union> (if b_file_operations b = None then {}
        else {''files_created_count'', ''files_deleted_count'', ''files_modified_count''})"
  by (simp add: file_features_def keys_update insert_commute split: option.splits)

lemma keys_process:
  "fst ` set (process_features b fs) =
     fst ` set fs \<union> (if b_process_creation b = None then {}
        else {''processes_created_count'', ''dlls_loaded_count''})"
  by (simp add: process_features_def keys_update insert_commute split: option.splits)

lemma keys_dynamic:
  "fst ` set (extract_dynamic_features d) = dynamic_keys (Some d)"
proof (cases "d_behavior d")
  case None
  then show ?thesis
    by (simp add: extract_dynamic_features_def dynamic_keys_def keys_behavior_score)
next
  case (Some b)
  then show ?thesis
    unfolding extract_dynamic_features_def dynamic_keys_def behavior_keys_def
    by (simp add: keys_process keys_file keys_registry keys_network keys_behavior_score
        Un_assoc)
qed

lemma distinct_dynamic: "distinct (map fst (extract_dynamic_features d))"
  unfolding extract_dynamic_features_def behavior_score_features_def network_features_def
    registry_features_def file_features_def process_features_def
  by (simp add: distinct_update split: option.splits)

lemma static_keys_names: "static_keys s \<subseteq> set static_feature_names"
  by (simp add: static_keys_def static_feature_names_def)

lemma dynamic_keys_names: "dynamic_keys dyn \<subseteq> set dynamic_feature_names"
  by (auto simp add: dynamic_keys_def behavior_keys_def dynamic_feature_names_def
      split: option.splits if_splits)

lemma entropy_not_dynamic: "''entropy'' \<notin> dynamic_keys dyn"
  by (auto simp add: dynamic_keys_def behavior_keys_def split: option.splits if_splits)

lemma map_of_static_entropy:
  assumes "extract_static_features int16 s = Inr fs"
  shows "map_of fs ''entropy'' = Some (get_or (s_entropy s) 0)"
proof -
  from assms obtain fs0 where
    b: "fs = indicator_features s (entropy_features s (string_features s
                   (import_features s fs0)))"
    by (auto simp add: extract_static_features_def split: sum.splits)
  show ?thesis
    unfolding b indicator_features_def entropy_features_def
    by (simp add: update_conv' split: option.splits)
qed

lemma keys_features:
  assumes "extract_features int16 s dyn = Inr fs"
  shows "fst ` set fs = static_keys s \<union> dynamic_keys dyn"
proof -
  from assms obtain sf where sf: "extract_static_features int16 s = Inr sf"
    and fs: "fs = (case dyn of None \<Rightarrow> dict_update [] sf
                   | Some d \<Rightarrow> dict_update (dict_update [] sf) (extract_dynamic_features d))"
    by (auto simp add: extract_features_def split: sum.splits option.splits)
  show ?thesis
  proof (cases dyn)
    case None
    with fs keys_static [OF sf] show ?thesis
      by (simp add: keys_dict_update dynamic_keys_def)
  next
    case (Some d)
    with fs keys_static [OF sf] keys_dynamic [of d] show ?thesis
      by (simp add: keys_dict_update)
  qed
qed

lemma distinct_features:
  assumes "extract_features int16 s dyn = Inr fs"
  shows "distinct (map fst fs)"
proof -
  from assms obtain sf where
    fs: "fs = (case dyn of None \<Rightarrow> dict_update [] sf
                   | Some d \<Rightarrow> dict_update (dict_update [] sf) (extract_dynamic_features d))"
    by (auto simp add: extract_features_def split: sum.splits option.splits)
  show ?thesis
    unfolding fs by (simp add: distinct_dict_update split: option.splits)
qed

lemma entropy_feature:
  assumes "extract_features int16 s dyn = Inr fs"
  shows "map_of fs ''entropy'' = Some (get_or (s_entropy s) 0)"
proof -
  from assms obtain sf where sf: "extract_static_features int16 s = Inr sf"
    and fs: "fs = (case dyn of None \<Rightarrow> dict_update [] sf
                   | Some d \<Rightarrow> dict_update (dict_update [] sf) (extract_dynamic_features d))"
    by (auto simp add: extract_features_def split: sum.splits option.splits)
  have base: "map_of (dict_update [] sf) ''entropy'' = Some (get_or (s_entropy s) 0)"
    using map_of_dict_update [OF distinct_static [OF sf], of "[]"] map_of_static_entropy [OF sf]
    by simp
  show ?thesis
  proof (cases dyn)
    case None
    with fs base show ?thesis by simp
  next
    case (Some d)
    have "''entropy'' \<notin> fst ` set (extract_dynamic_features d)"
      using entropy_not_dynamic [of "Some d"] by (simp add: keys_dynamic)
    then have "map_of (extract_dynamic_features d) ''entropy'' = None"
      by (simp add: map_of_eq_None_iff)
    with Some fs base show ?thesis
      by (simp add: map_of_dict_update [OF distinct_dynamic] map_add_def)
  qed
qed

lemma blank_features:
  "extract_features int16 blank_static (Some blank_dynamic)
     = Inr (map (\<lambda>name. (name, 0)) feature_names)"
  by (simp add: extract_features_def extract_static_features_def pe_header_features_def
      file_size_features_def import_features_def string_features_def entropy_features_def
      indicator_features_def extract_dynamic_features_def behavior_score_features_def
      network_features_def registry_features_def file_features_def process_features_def
      blank_static_def blank_dynamic_def empty_pe_headers_def dict_update_def get_or_def
      truthy_str_def suspicious_count_def feature_names_def static_feature_names_def
      dynamic_feature_names_def)

lemma no_static_features:
  "extract_features int16 no_static None = Inr [(''entropy'', 0)]"
  by (simp add: extract_features_def extract_static_features_def pe_header_features_def
      file_size_features_def import_features_def string_features_def entropy_features_def
      indicator_features_def no_static_def dict_update_def get_or_def)

text \<open>
  C1, as stated, fails: for a static result with no section and no dynamic result the
  mapping holds \<open>entropy\<close> alone, not the full set of names.
\<close>

theorem missing_sections_counterexample:
  "extract_features int16_of_hex no_static None = Inr [(''entropy'', 0)]
   \<and> set (map fst [(''entropy'', 0::real)]) \<noteq> set feature_names"
proof -
  have "''file_size'' \<in> set feature_names"
    by (simp add: feature_names_def static_feature_names_def)
  moreover have "''file_size'' \<notin> set (map fst [(''entropy'', 0::real)])" by simp
  ultimately have "set (map fst [(''entropy'', 0::real)]) \<noteq> set feature_names" by blast
  with no_static_features [of int16_of_hex] show ?thesis by simp
qed

text \<open>
  C1, amended. When the extraction does not raise, the feature mapping has each name once; its
  names are \<open>entropy\<close> (always, with the value 0 when the result has no entropy) and the
  fields of the sections that the inputs have, all among the 26 names that the code assigns;
  the fields of an absent section are missing. With every section present and empty, all 26
  names are there and every value is 0.
\<close>

theorem feature_names_follow_sections:
  "(extract_features int16 s dyn = Inr fs \<longrightarrow>
      distinct (map fst fs)
    \<and> fst ` set fs = static_keys s \<union> dynamic_keys dyn
    \<and> fst ` set fs \<subseteq> set feature_names
    \<and> map_of fs ''entropy'' = Some (get_or (s_entropy s) 0))
   \<and> extract_features int16 blank_static (Some blank_dynamic)
       = Inr (map (\<lambda>name. (name, 0)) feature_names)"
proof (intro conjI impI)
  assume a: "extract_features int16 s dyn = Inr fs"
  show "distinct (map fst fs)" by (rule distinct_features [OF a])
  show k: "fst ` set fs = static_keys s \<union> dynamic_keys dyn" by (rule keys_features [OF a])
  show "fst ` set fs \<subseteq> set feature_names"
    unfolding k feature_names_def using static_keys_names [of s] dynamic_keys_names [of dyn]
    by auto
  show "map_of fs ''entropy'' = Some (get_or (s_entropy s) 0)" by (rule entropy_feature [OF a])
next
  show "extract_features int16 blank_static (Some blank_dynamic)
       = Inr (map (\<lambda>name. (name, 0)) feature_names)"
    by (rule blank_features)
qed

theorem feature_names_follow_sections_witness:
  "distinct (map fst (map (\<lambda>name. (name, 0::real)) feature_names))
   \<and> fst ` set (map (\<lambda>name. (name, 0::real)) feature_names)
       = static_keys blank_static \<union> dynamic_keys (Some blank_dynamic)
   \<and> fst ` set (map (\<lambda>name. (name, 0::real)) feature_names) \<subseteq> set feature_names
   \<and> map_of (map (\<lambda>name. (name, 0::real)) feature_names) ''entropy''
       = Some (get_or (s_entropy blank_static) 0)"
proof -
  have h: "extract_features int16_of_hex blank_static (Some blank_dynamic)
      = Inr (map (\<lambda>name. (name, 0)) feature_names)"
    by (rule blank_features)
  from feature_names_follow_sections [of int16_of_hex blank_static "Some blank_dynamic"
      "map (\<lambda>name. (name, 0)) feature_names"]
  have "extract_features int16_of_hex blank_static (Some blank_dynamic)
      = Inr (map (\<lambda>name. (name, 0)) feature_names) \<longrightarrow>
      distinct (map fst (map (\<lambda>name. (name, 0::real)) feature_names))
   \<and> fst ` set (map (\<lambda>name. (name, 0::real)) feature_names)
       = static_keys blank_static \<union> dynamic_keys (Some blank_dynamic)
   \<and> fst ` set (map (\<lambda>name. (name, 0::real)) feature_names) \<subseteq> set feature_names
   \<and> map_of (map (\<lambda>name. (name, 0::real)) feature_names) ''entropy''
       = Some (get_or (s_entropy blank_static) 0)"
    by (rule conjunct1)
  from this h show ?thesis by (rule mp)
qed

section \<open>Suspicious imports, from the import table to the report\<close>

lemma py_in_self: "py_in s s"
  by (cases s) simp_all

































section \<open>Properties of the inference step\<close>

lemma failure_is_unknown:
  "p_prediction (prediction_failure msg) = Some ''unknown''
   \<and> p_confidence (prediction_failure msg) = Some 0"
  by (simp add: prediction_failure_def)

lemma body_raises_iff:
  "(\<exists>e. make_prediction_body fe mp features = Inl e) \<longleftrightarrow>
     (\<exists>e. process_single_sample fe features = Inl e)
     \<or> (\<exists>X. process_single_sample fe features = Inr X
            \<and> ((\<exists>e. predict mp X = Inl e) \<or> predict mp X = Inr []))"
  by (auto simp add: make_prediction_body_def split: sum.splits list.splits)

lemma body_returns_label:
  assumes "make_prediction_body fe mp features = Inr r"
  shows "p_prediction r = Some ''malicious'' \<or> p_prediction r = Some ''benign''"
  using assms
  by (auto simp add: make_prediction_body_def split: sum.splits list.splits if_splits)

lemma unfitted_raises:
  "process_single_sample new_feature_engineer features
     = Inl (Exn ''NotFittedError'' ''This StandardScaler instance is not fitted yet.'')"
  by (simp add: process_single_sample_def new_feature_engineer_def)

lemma identity_processes:
  "process_single_sample identity_feature_engineer features = Inr [map snd features]"
  by (simp add: process_single_sample_def identity_feature_engineer_def)

lemma no_model_raises:
  "predict new_predictor X
     = Inl (Exn ''ValueError'' ''No trained model available for prediction'')"
  by (simp add: predict_def new_predictor_def)

lemma trained_predicts:
  "predict trained_predictor [[1024, 5.2]] = Inr [1]"
  by (simp add: predict_def trained_predictor_def sample_model_def)

text \<open>
  C7. \<open>_make_prediction\<close> returns a verdict for every feature mapping and every state of
  the feature engineer and of the predictor. When the scaling or the selection raises, when
  \<open>predict\<close> raises or when it returns no prediction, the body of the \<open>try\<close> raises
  and the verdict returned is the failure verdict, with the label \<open>unknown\<close> and the
  confidence 0; otherwise the body returns the verdict, whose label is \<open>malicious\<close> or
  \<open>benign\<close>. (A failure of the probability estimate alone is not a failure of the
  inference: the confidence is then 0.5.)
\<close>

theorem inference_failure_gives_unknown:
  "(((\<exists>e. process_single_sample fe features = Inl e)
      \<or> (\<exists>X. process_single_sample fe features = Inr X
             \<and> ((\<exists>e. predict mp X = Inl e) \<or> predict mp X = Inr [])))
     \<longrightarrow> (\<exists>e. make_prediction_body fe mp features = Inl e
               \<and> make_prediction fe mp features = prediction_failure (str_exn e))
          \<and> p_prediction (make_prediction fe mp features) = Some ''unknown''
          \<and> p_confidence (make_prediction fe mp features) = Some 0)
   \<and> (\<not> ((\<exists>e. process_single_sample fe features = Inl e)
      \<or> (\<exists>X. process_single_sample fe features = Inr X
             \<and> ((\<exists>e. predict mp X = Inl e) \<or> predict mp X = Inr [])))
     \<longrightarrow> (\<exists>r. make_prediction_body fe mp features = Inr r
               \<and> make_prediction fe mp features = r
               \<and> (p_prediction r = Some ''malicious'' \<or> p_prediction r = Some ''benign'')))"
proof (intro conjI impI)
  assume "(\<exists>e. process_single_sample fe features = Inl e)
      \<or> (\<exists>X. process_single_sample fe features = Inr X
             \<and> ((\<exists>e. predict mp X = Inl e) \<or> predict mp X = Inr []))"
  then obtain e where e: "make_prediction_body fe mp features = Inl e"
    using body_raises_iff [of fe mp features] by blast
  then have m: "make_prediction fe mp features = prediction_failure (str_exn e)"
    by (simp add: make_prediction_def)
  from e m show "\<exists>e. make_prediction_body fe mp features = Inl e
               \<and> make_prediction fe mp features = prediction_failure (str_exn e)"
    by blast
  from m show "p_prediction (make_prediction fe mp features) = Some ''unknown''"
    by (simp add: failure_is_unknown)
  from m show "p_confidence (make_prediction fe mp features) = Some 0"
    by (simp add: failure_is_unknown)
next
  assume "\<not> ((\<exists>e. process_single_sample fe features = Inl e)
      \<or> (\<exists>X. process_single_sample fe features = Inr X
             \<and> ((\<exists>e. predict mp X = Inl e) \<or> predict mp X = Inr [])))"
  then have "\<not> (\<exists>e. make_prediction_body fe mp features = Inl e)"
    using body_raises_iff [of fe mp features] by blast
  then obtain r where r: "make_prediction_body fe mp features = Inr r"
    by (cases "make_prediction_body fe mp features") auto
  then have "make_prediction fe mp features = r"
    by (simp add: make_prediction_def)
  with r body_returns_label [OF r]
  show "\<exists>r. make_prediction_body fe mp features = Inr r
               \<and> make_prediction fe mp features = r
               \<and> (p_prediction r = Some ''malicious'' \<or> p_prediction r = Some ''benign'')"
    by blast
qed

theorem inference_failure_gives_unknown_witness:
  "p_prediction (make_prediction new_feature_engineer trained_predictor
      [(''file_size'', 1024), (''entropy'', 5.2)]) = Some ''unknown''
   \<and> p_confidence (make_prediction new_feature_engineer trained_predictor
      [(''file_size'', 1024), (''entropy'', 5.2)]) = Some 0
   \<and> p_prediction (make_prediction identity_feature_engineer new_predictor
      [(''file_size'', 1024), (''entropy'', 5.2)]) = Some ''unknown''
   \<and> p_confidence (make_prediction identity_feature_engineer new_predictor
      [(''file_size'', 1024), (''entropy'', 5.2)]) = Some 0
   \<and> (p_prediction (make_prediction identity_feature_engineer trained_predictor
        [(''file_size'', 1024), (''entropy'', 5.2)]) = Some ''malicious''
      \<or> p_prediction (make_prediction identity_feature_engineer trained_predictor
        [(''file_size'', 1024), (''entropy'', 5.2)]) = Some ''benign'')"
proof -
  let ?f = "[(''file_size'', 1024), (''entropy'', 5.2)] :: features"
  have a: "p_prediction (make_prediction new_feature_engineer trained_predictor ?f)
        = Some ''unknown''
      \<and> p_confidence (make_prediction new_feature_engineer trained_predictor ?f) = Some 0"
    using inference_failure_gives_unknown [of new_feature_engineer ?f trained_predictor]
      unfitted_raises [of ?f] by blast
  have b: "p_prediction (make_prediction identity_feature_engineer new_predictor ?f)
        = Some ''unknown''
      \<and> p_confidence (make_prediction identity_feature_engineer new_predictor ?f) = Some 0"
    using inference_failure_gives_unknown [of identity_feature_engineer ?f new_predictor]
      identity_processes [of ?f] no_model_raises by blast
  have ok: "\<not> ((\<exists>e. process_single_sample identity_feature_engineer ?f = Inl e)
      \<or> (\<exists>X. process_single_sample identity_feature_engineer ?f = Inr X
             \<and> ((\<exists>e. predict trained_predictor X = Inl e)
                \<or> predict trained_predictor X = Inr [])))"
    using trained_predicts by (simp add: identity_processes)
  have c: "p_prediction (make_prediction identity_feature_engineer trained_predictor ?f)
        = Some ''malicious''
      \<or> p_prediction (make_prediction identity_feature_engineer trained_predictor ?f)
        = Some ''benign''"
    using inference_failure_gives_unknown [of identity_feature_engineer ?f trained_predictor]
      ok by blast
  from a b c show ?thesis by blast
qed

section \<open>Saving and reloading the best model\<close>

lemma saved_bundle:
  assumes "best_model mp \<noteq> PyNone"
  shows "save_best_model mp filename files filename
           = Some (Inr [(''model'', best_model mp), (''model_name'', best_model_name mp),
                        (''model_type'', PyStr (type_name (best_model mp)))])"
  using assms by (simp add: save_best_model_def)

lemma load_saved:
  assumes "best_model mp \<noteq> PyNone"
  shows "load_model mp' filename (save_best_model mp filename files)
           = (True, mp'\<lparr>best_model := best_model mp, best_model_name := best_model_name mp\<rparr>)"
  by (simp add: load_model_def saved_bundle [OF assms])

lemma predict_depends_on_model:
  "best_model mp1 = best_model mp2 \<Longrightarrow> predict mp1 X = predict mp2 X"
  by (simp add: predict_def)

lemma predict_proba_depends_on_model:
  "best_model mp1 = best_model mp2 \<Longrightarrow> predict_proba mp1 X = predict_proba mp2 X"
  by (simp add: predict_proba_def)

lemma make_prediction_depends_on_model:
  assumes "best_model mp1 = best_model mp2" and "best_model_name mp1 = best_model_name mp2"
  shows "make_prediction fe mp1 features = make_prediction fe mp2 features"
proof -
  have p: "predict mp1 = predict mp2"
    using assms(1) by (simp add: fun_eq_iff predict_def)
  have c: "confidence_of mp1 = confidence_of mp2"
    using assms(1) by (simp add: fun_eq_iff confidence_of_def predict_proba_def)
  have t: "get_top_features mp1 = get_top_features mp2"
    using assms(1) by (simp add: fun_eq_iff get_top_features_def)
  show ?thesis
    unfolding make_prediction_def make_prediction_body_def p c t assms(2) by (rule refl)
qed

lemma trained_predicts_rows:
  "predict trained_predictor X = Inr (map (\<lambda>row. if 0 < hd row then 1 else 0) X)"
  by (simp add: predict_def trained_predictor_def sample_model_def)

text \<open>
  C4, as stated, fails: the bundle that \<open>save_best_model\<close> writes for a trained predictor
  has three entries, the model, its name and the name of its class, and neither a scaler nor
  a selection mask. So a system that predicted with a working scaler answers \<open>unknown\<close>
  after the bundle is loaded next to a newly built feature engineer.
\<close>

theorem bundle_counterexample:
  "save_best_model trained_predictor ''best_model.pkl'' Map.empty ''best_model.pkl''
     = Some (Inr [(''model'', PyModel sample_model), (''model_name'', PyStr ''random_forest''),
                  (''model_type'', PyStr ''RandomForestClassifier'')])
   \<and> p_prediction (make_prediction identity_feature_engineer trained_predictor
        [(''file_size'', 1024), (''entropy'', 5.2)]) = Some ''malicious''
   \<and> p_prediction (make_prediction new_feature_engineer
        (snd (load_model new_predictor ''best_model.pkl''
               (save_best_model trained_predictor ''best_model.pkl'' Map.empty)))
        [(''file_size'', 1024), (''entropy'', 5.2)]) = Some ''unknown''"
proof -
  have a: "save_best_model trained_predictor ''best_model.pkl'' Map.empty ''best_model.pkl''
     = Some (Inr [(''model'', PyModel sample_model), (''model_name'', PyStr ''random_forest''),
                  (''model_type'', PyStr ''RandomForestClassifier'')])"
    by (simp add: save_best_model_def trained_predictor_def type_name_def sample_model_def)
  have b: "p_prediction (make_prediction identity_feature_engineer trained_predictor
        [(''file_size'', 1024), (''entropy'', 5.2)]) = Some ''malicious''"
    by (simp add: make_prediction_def make_prediction_body_def identity_processes
        trained_predicts_rows)
  have c: "p_prediction (make_prediction new_feature_engineer mp
        [(''file_size'', 1024), (''entropy'', 5.2)]) = Some ''unknown''" for mp
    by (simp add: make_prediction_def make_prediction_body_def unfitted_raises
        prediction_failure_def)
  from a b c show ?thesis by simp
qed

text \<open>
  C4, amended. When a best model has been chosen, \<open>save_best_model\<close> writes the bundle of
  the model, its name and the name of its class; \<open>load_model\<close> on that file returns
  \<open>True\<close> and sets \<open>best_model\<close> and \<open>best_model_name\<close> to the saved ones; and
  \<open>predict\<close>, \<open>predict_proba\<close> and, with the same feature engineer, \<open>_make_prediction\<close>
  give after the round trip what they gave before.
\<close>

theorem save_load_round_trip:
  assumes "best_model mp \<noteq> PyNone"
  shows "save_best_model mp filename files filename
           = Some (Inr [(''model'', best_model mp), (''model_name'', best_model_name mp),
                        (''model_type'', PyStr (type_name (best_model mp)))])
       \<and> load_model mp' filename (save_best_model mp filename files)
           = (True, mp'\<lparr>best_model := best_model mp, best_model_name := best_model_name mp\<rparr>)
       \<and> predict (snd (load_model mp' filename (save_best_model mp filename files))) X
           = predict mp X
       \<and> predict_proba (snd (load_model mp' filename (save_best_model mp filename files))) X
           = predict_proba mp X
       \<and> make_prediction fe (snd (load_model mp' filename (save_best_model mp filename files)))
            features
           = make_prediction fe mp features"
proof -
  let ?mp = "snd (load_model mp' filename (save_best_model mp filename files))"
  have l: "load_model mp' filename (save_best_model mp filename files)
           = (True, mp'\<lparr>best_model := best_model mp, best_model_name := best_model_name mp\<rparr>)"
    by (rule load_saved [OF assms])
  then have m: "best_model ?mp = best_model mp" and n: "best_model_name ?mp = best_model_name mp"
    by simp_all
  from saved_bundle [OF assms] l predict_depends_on_model [OF m]
    predict_proba_depends_on_model [OF m] make_prediction_depends_on_model [OF m n]
  show ?thesis by simp
qed

theorem save_load_round_trip_witness:
  "load_model new_predictor ''best_model.pkl''
      (save_best_model trained_predictor ''best_model.pkl'' Map.empty)
     = (True, trained_predictor)
   \<and> make_prediction identity_feature_engineer
        (snd (load_model new_predictor ''best_model.pkl''
               (save_best_model trained_predictor ''best_model.pkl'' Map.empty)))
        [(''file_size'', 1024), (''entropy'', 5.2)]
     = make_prediction identity_feature_engineer trained_predictor
        [(''file_size'', 1024), (''entropy'', 5.2)]"
proof -
  have a: "best_model trained_predictor \<noteq> PyNone"
    by (simp add: trained_predictor_def)
  have b: "new_predictor\<lparr>best_model := best_model trained_predictor,
      best_model_name := best_model_name trained_predictor\<rparr> = trained_predictor"
    by (simp add: new_predictor_def trained_predictor_def)
  from save_load_round_trip [OF a, of "''best_model.pkl''" Map.empty new_predictor
      "[[1024, 5.2]]" identity_feature_engineer "[(''file_size'', 1024), (''entropy'', 5.2)]"] b
  show ?thesis by simp
qed

section \<open>Entropy\<close>

text \<open>The counter: its keys, its counts and their sum.\<close>

lemma keys_Counter: "fst ` set (Counter xs) = set xs"
proof -
  have "fst ` set (foldl (\<lambda>counts x. AList.map_default x 1 Suc counts) acc xs)
          = fst ` set acc \<union> set xs" for acc :: "('a \<times> nat) list"
    by (induction xs arbitrary: acc) (auto simp add: dom_map_default)
  then show ?thesis by (simp add: Counter_def)
qed

lemma distinct_Counter: "distinct (map fst (Counter xs))"
proof -
  have "distinct (map fst acc) \<Longrightarrow>
        distinct (map fst (foldl (\<lambda>counts x. AList.map_default x 1 Suc counts) acc xs))"
    for acc :: "('a \<times> nat) list"
    by (induction xs arbitrary: acc) (simp_all add: distinct_map_default)
  then show ?thesis by (simp add: Counter_def)
qed

lemma map_of_Counter:
  "map_of (Counter xs) x = (if x \<in> set xs then Some (count_list xs x) else None)"
proof -
  have "map_of (foldl (\<lambda>counts x. AList.map_default x 1 Suc counts) acc xs) x
          = (case map_of acc x of
               None \<Rightarrow> if x \<in> set xs then Some (count_list xs x) else None
             | Some c \<Rightarrow> Some (c + count_list xs x))"
    for acc :: "('a \<times> nat) list"
  proof (induction xs arbitrary: acc)
    case Nil
    then show ?case by (simp split: option.splits)
  next
    case (Cons a xs)
    show ?case
      using Cons.IH [of "AList.map_default a 1 Suc acc"]
      by (simp add: map_of_map_default split: option.splits)
  qed
  from this [of "[]"] show ?thesis by (simp add: Counter_def)
qed

lemma sum_snd_map_default:
  "sum_list (map snd (AList.map_default x 1 Suc acc)) = Suc (sum_list (map snd acc))"
  by (induction acc) auto

lemma sum_Counter: "sum_list (map snd (Counter xs)) = length xs"
proof -
  have "sum_list (map snd (foldl (\<lambda>counts x. AList.map_default x 1 Suc counts) acc xs))
          = sum_list (map snd acc) + length xs" for acc :: "('a \<times> nat) list"
  proof (induction xs arbitrary: acc)
    case Nil
    then show ?case by simp
  next
    case (Cons a xs)
    show ?case
      using Cons.IH [of "AList.map_default a 1 Suc acc"] sum_snd_map_default [of a acc]
      by simp
  qed
  from this [of "[]"] show ?thesis by (simp add: Counter_def)
qed

lemma positive_map_default:
  "\<forall>c \<in> snd ` set acc. 0 < c \<Longrightarrow> \<forall>c \<in> snd ` set (AList.map_default x 1 Suc acc). 0 < c"
  by (induction acc) auto

lemma positive_Counter: "c \<in> set (map snd (Counter xs)) \<Longrightarrow> 0 < c"
proof -
  have "\<forall>c \<in> snd ` set acc. 0 < c \<Longrightarrow>
        \<forall>c \<in> snd ` set (foldl (\<lambda>counts x. AList.map_default x 1 Suc counts) acc xs). 0 < c"
    for acc :: "('a \<times> nat) list"
  proof (induction xs arbitrary: acc)
    case Nil
    then show ?case by simp
  next
    case (Cons a xs)
    show ?case
      using Cons.IH [OF positive_map_default [OF Cons.prems, of a]] by simp
  qed
  from this [of "[]"] show "c \<in> set (map snd (Counter xs)) \<Longrightarrow> 0 < c"
    by (auto simp add: Counter_def)
qed

lemma length_Counter: "length (Counter xs) = card (set xs)"
proof -
  have "length (Counter xs) = length (map fst (Counter xs))" by simp
  also have "\<dots> = card (set (map fst (Counter xs)))"
    by (rule distinct_card [symmetric]) (rule distinct_Counter)
  also have "\<dots> = card (set xs)" by (simp add: keys_Counter)
  finally show ?thesis .
qed

lemma count_le_length:
  assumes "c \<in> set (map snd (Counter xs))"
  shows "c \<le> length xs"
proof -
  have "c \<le> sum_list (map snd (Counter xs))"
    using assms by (intro member_le_sum_list) auto
  then show ?thesis by (simp add: sum_Counter)
qed

lemma card_bytes: "card (set (data :: bytes)) \<le> 256"
proof -
  have "card (set data) \<le> card (UNIV :: char set)"
    by (intro card_mono) simp_all
  then show ?thesis by (simp add: card_UNIV_char)
qed

lemma uniform_counts:
  assumes "0 < m" and "\<forall>b. count_list (data :: bytes) b = m"
  shows "map snd (Counter data) = replicate 256 m" and "length data = 256 * m"
proof -
  let ?cs = "map snd (Counter data)"
  have all: "set data = UNIV"
  proof -
    have "b \<in> set data" for b
      using assms count_list_0_iff [of data b] by (metis less_numeral_extra(3))
    then show ?thesis by auto
  qed
  then have len: "length ?cs = 256"
    by (simp add: length_Counter card_UNIV_char)
  have each: "c = m" if "c \<in> set ?cs" for c
  proof -
    from that obtain k where k: "(k, c) \<in> set (Counter data)" by auto
    with distinct_Counter [of data] have "map_of (Counter data) k = Some c" by simp
    with assms(2) all show ?thesis by (simp add: map_of_Counter)
  qed
  have "?cs = replicate (length ?cs) m"
    by (rule replicate_length_same [symmetric]) (simp add: each)
  with len show cs: "?cs = replicate 256 m" by simp
  have "sum_list ?cs = length data" by (rule sum_Counter)
  with cs show "length data = 256 * m" by (simp add: sum_list_replicate)
qed

lemma count_list_distinct:
  "distinct xs \<Longrightarrow> count_list xs x = (if x \<in> set xs then 1 else 0)"
  by (induction xs) auto

lemma every_byte_once: "\<forall>b. count_list (Enum.enum :: bytes) b = 1"
proof
  fix b :: char
  have "distinct (Enum.enum :: bytes)" by (rule enum_distinct)
  from count_list_distinct [OF this, of b] show "count_list (Enum.enum :: bytes) b = 1"
    by (simp add: enum_UNIV)
qed

text \<open>With the rounding of binary64: the sign of the sum and the two extremes.\<close>

lemma round_fixes:
  assumes "binary64_rounding fl" and "\<bar>k\<bar> < 2 ^ 53" and "j \<le> 1074"
  shows "fl_round fl (real_of_int k / 2 ^ j) = real_of_int k / 2 ^ j"
  using assms unfolding binary64_rounding_def by blast

lemma round_mono:
  assumes "binary64_rounding fl" and "x \<le> y"
  shows "fl_round fl x \<le> fl_round fl y"
  using assms unfolding binary64_rounding_def by blast

lemma round_0: "binary64_rounding fl \<Longrightarrow> fl_round fl 0 = 0"
  using round_fixes [of fl 0 0] by simp

lemma round_1: "binary64_rounding fl \<Longrightarrow> fl_round fl 1 = 1"
  using round_fixes [of fl 1 0] by simp

lemma round_256th: "binary64_rounding fl \<Longrightarrow> fl_round fl (1 / 256) = 1 / 256"
  using round_fixes [of fl 1 8] by simp

lemma round_32nds:
  assumes "binary64_rounding fl" and "\<bar>k\<bar> \<le> 256"
  shows "fl_round fl (real_of_int k / 32) = real_of_int k / 32"
proof -
  from assms(2) have "\<bar>k\<bar> < 2 ^ 53" by simp
  from round_fixes [OF assms(1) this, of 5] show ?thesis by simp
qed

lemma log2_facts:
  assumes "binary64_rounding fl"
  shows "fl_log2 fl 1 = 0" and "fl_log2 fl (1 / 256) = - 8"
    and "0 < p \<Longrightarrow> p \<le> 1 \<Longrightarrow> fl_log2 fl p \<le> 0"
  using assms unfolding binary64_rounding_def by blast+

lemma probability_range:
  assumes fl: "binary64_rounding fl" and c: "0 < c" "c \<le> n" and n: "n \<le> 2 ^ 1074"
  shows "0 < fl_round fl (real c / real n)" and "fl_round fl (real c / real n) \<le> 1"
proof -
  have npos: "0 < n" using c by simp
  have "real c / real n \<le> 1" using c npos by simp
  from round_mono [OF fl this] show "fl_round fl (real c / real n) \<le> 1"
    by (simp add: round_1 [OF fl])
  have "real n \<le> 2 ^ 1074"
    using n by (metis of_nat_le_iff of_nat_numeral of_nat_power)
  then have "1 / 2 ^ 1074 \<le> 1 / real n"
    using npos by (intro divide_left_mono) simp_all
  also have "1 / real n \<le> real c / real n"
    using c npos by (intro divide_right_mono) simp_all
  finally have "(1::real) / 2 ^ 1074 \<le> real c / real n" .
  from round_mono [OF fl this] round_fixes [OF fl, of 1 1074]
  have "(1::real) / 2 ^ 1074 \<le> fl_round fl (real c / real n)" by simp
  moreover have "(0::real) < 1 / 2 ^ 1074" by simp
  ultimately show "0 < fl_round fl (real c / real n)" by linarith
qed

lemma entropy_step_nonneg:
  assumes fl: "binary64_rounding fl" and c: "0 < c" "c \<le> n" and n: "n \<le> 2 ^ 1074"
    and e: "0 \<le> e"
  shows "0 \<le> entropy_step fl n e c"
proof -
  let ?p = "fl_round fl (real c / real n)"
  from probability_range [OF fl c n] have p: "0 < ?p" "?p \<le> 1" by simp_all
  from log2_facts(3) [OF fl p] have "fl_log2 fl ?p \<le> 0" .
  with p(1) have "?p * fl_log2 fl ?p \<le> 0" by (simp add: mult_le_0_iff)
  from round_mono [OF fl this] have t: "fl_round fl (?p * fl_log2 fl ?p) \<le> 0"
    by (simp add: round_0 [OF fl])
  with e have "0 \<le> e - fl_round fl (?p * fl_log2 fl ?p)" by simp
  from round_mono [OF fl this] show ?thesis
    by (simp add: entropy_step_def Let_def round_0 [OF fl])
qed

lemma foldl_entropy_nonneg:
  assumes fl: "binary64_rounding fl" and n: "n \<le> 2 ^ 1074"
    and cs: "\<forall>c \<in> set cs. 0 < c \<and> c \<le> n" and e: "0 \<le> e"
  shows "0 \<le> foldl (entropy_step fl n) e cs"
  using cs e
proof (induction cs arbitrary: e)
  case Nil
  then show ?case by simp
next
  case (Cons c cs)
  from Cons.prems have c: "0 < c" "c \<le> n" by simp_all
  from entropy_step_nonneg [OF fl c n Cons.prems(2)] Cons.IH Cons.prems(1)
  show ?case by simp
qed

lemma float_entropy_nonneg:
  assumes "binary64_rounding fl" and "data \<noteq> []" and "length data \<le> 2 ^ 1074"
  shows "0 \<le> calculate_entropy fl data"
proof -
  have "\<forall>c \<in> set (map snd (Counter data)). 0 < c \<and> c \<le> length data"
    using positive_Counter count_le_length by blast
  from foldl_entropy_nonneg [OF assms(1,3) this, of 0] assms(2)
  show ?thesis by (simp add: calculate_entropy_def)
qed

lemma float_entropy_single_value:
  assumes fl: "binary64_rounding fl" and "data \<noteq> []" and "set data = {b}"
  shows "calculate_entropy fl data = 0"
proof -
  let ?cs = "map snd (Counter data)"
  have "length ?cs = 1" using assms(3) by (simp add: length_Counter)
  then obtain c where cs: "?cs = [c]"
    by (cases ?cs) auto
  have "sum_list ?cs = length data" by (rule sum_Counter)
  with cs have c: "c = length data" by simp
  have n: "0 < length data" using assms(2) by simp
  then have q: "real (length data) / real (length data) = 1" by simp
  show ?thesis
    using assms(2)
    by (simp add: calculate_entropy_def cs c entropy_step_def Let_def q round_1 [OF fl]
        log2_facts(1) [OF fl] round_0 [OF fl])
qed

lemma uniform_step:
  assumes fl: "binary64_rounding fl" and m: "0 < m" and i: "i < 256"
  shows "entropy_step fl (256 * m) (real i / 32) m = real (Suc i) / 32"
proof -
  have q: "real m / real (256 * m) = 1 / 256" using m by simp
  have p: "fl_round fl (real m / real (256 * m)) = 1 / 256"
    unfolding q by (rule round_256th [OF fl])
  have t: "fl_round fl (1 / 256 * - 8) = - 1 / 32"
    using round_32nds [OF fl, of "- 1"] by simp
  have r: "fl_round fl (real i / 32 - (- 1 / 32)) = real (Suc i) / 32"
    using round_32nds [OF fl, of "int (Suc i)"] i by (simp add: field_simps)
  have "entropy_step fl (256 * m) (real i / 32) m
      = fl_round fl (real i / 32 - fl_round fl (1 / 256 * fl_log2 fl (1 / 256)))"
    by (simp only: entropy_step_def Let_def p)
  also have "\<dots> = fl_round fl (real i / 32 - fl_round fl (1 / 256 * - 8))"
    by (simp only: log2_facts(2) [OF fl])
  also have "\<dots> = fl_round fl (real i / 32 - (- 1 / 32))"
    by (simp only: t)
  also have "\<dots> = real (Suc i) / 32" by (rule r)
  finally show ?thesis .
qed

lemma uniform_foldl:
  assumes fl: "binary64_rounding fl" and m: "0 < m"
  shows "i + j \<le> 256 \<Longrightarrow>
    foldl (entropy_step fl (256 * m)) (real i / 32) (replicate j m) = real (i + j) / 32"
proof (induction j arbitrary: i)
  case 0
  then show ?case by simp
next
  case (Suc j)
  then have i: "i < 256" and rest: "Suc i + j \<le> 256" by simp_all
  have "foldl (entropy_step fl (256 * m)) (real i / 32) (replicate (Suc j) m)
      = foldl (entropy_step fl (256 * m)) (entropy_step fl (256 * m) (real i / 32) m)
          (replicate j m)"
    by (simp only: replicate_Suc foldl_Cons)
  also have "\<dots> = foldl (entropy_step fl (256 * m)) (real (Suc i) / 32) (replicate j m)"
    by (simp only: uniform_step [OF fl m i])
  also have "\<dots> = real (Suc i + j) / 32" by (rule Suc.IH [OF rest])
  also have "\<dots> = real (i + Suc j) / 32" by simp
  finally show ?case .
qed

lemma float_entropy_uniform:
  assumes fl: "binary64_rounding fl" and "0 < m" and "\<forall>b. count_list (data :: bytes) b = m"
  shows "calculate_entropy fl data = 8"
proof -
  from uniform_counts [OF assms(2,3)] have cs: "map snd (Counter data) = replicate 256 m"
    and n: "length data = 256 * m" by simp_all
  from n assms(2) have ne: "length data \<noteq> 0" by simp
  have "foldl (entropy_step fl (256 * m)) (real 0 / 32) (replicate 256 m) = real (0 + 256) / 32"
    by (rule uniform_foldl [OF fl assms(2)]) simp
  then have "foldl (entropy_step fl (256 * m)) 0 (replicate 256 m) = 8" by simp
  then show ?thesis
    unfolding calculate_entropy_def cs using ne by (simp add: n)
qed

text \<open>Without rounding: the sum is between 0 and \<open>log 2 256\<close>.\<close>

lemma ln_256: "ln (256::real) = 8 * ln 2"
  using ln_realpow [of 2 8] by simp

lemma log2_256th: "log 2 (1 / 256 :: real) = - 8"
proof -
  have "log 2 (256::real) = 8"
    using ln_256 by (simp add: log_def)
  then show ?thesis by (simp add: log_divide)
qed

lemma term_nonneg:
  fixes p :: real
  assumes "0 < p" and "p \<le> 1"
  shows "p * log 2 p \<le> 0"
proof -
  have "log 2 p \<le> 0" using assms by (simp add: zero_less_log_cancel_iff log_le_zero_cancel_iff)
  with assms(1) show ?thesis by (simp add: mult_le_0_iff)
qed

lemma term_upper:
  fixes p :: real
  assumes "0 < p"
  shows "- (p * log 2 p) \<le> 8 * p + (1 / 256 - p) / ln 2"
proof -
  have l2: "0 < ln (2::real)" by simp
  have "ln (1 / (256 * p)) \<le> 1 / (256 * p) - 1"
    using assms by (intro ln_le_minus_one) simp
  moreover have "ln (1 / (256 * p)) = - ln 256 - ln p"
    using assms by (simp add: ln_div ln_mult)
  ultimately have "- ln 256 - ln p \<le> 1 / (256 * p) - 1" by simp
  then have "p * (- ln 256 - ln p) \<le> p * (1 / (256 * p) - 1)"
    using assms by (intro mult_left_mono) simp_all
  also have "p * (1 / (256 * p) - 1) = 1 / 256 - p"
    using assms by (simp add: field_simps)
  finally have "- (p * ln p) \<le> p * ln 256 + (1 / 256 - p)"
    by (simp add: algebra_simps)
  then have "- (p * ln p) / ln 2 \<le> (p * ln 256 + (1 / 256 - p)) / ln 2"
    using l2 by (intro divide_right_mono) simp_all
  also have "(p * ln 256 + (1 / 256 - p)) / ln 2 = 8 * p + (1 / 256 - p) / ln 2"
    using l2 by (simp add: ln_256 field_simps)
  finally show ?thesis by (simp add: log_def)
qed

lemma sum_list_affine:
  fixes a b :: real
  shows "(\<Sum>c\<leftarrow>cs. a * real c + b) = a * real (sum_list cs) + b * real (length cs)"
  by (induction cs) (simp_all add: algebra_simps)

lemma sum_list_negate:
  fixes f :: "'a \<Rightarrow> real"
  shows "(\<Sum>c\<leftarrow>cs. - f c) = - (\<Sum>c\<leftarrow>cs. f c)"
  by (induction cs) simp_all

lemma exact_foldl_entropy_step:
  "foldl (entropy_step exact_arithmetic n) e cs
     = e - (\<Sum>c\<leftarrow>cs. (real c / real n) * log 2 (real c / real n))"
  by (induction cs arbitrary: e) (simp_all add: entropy_step_def Let_def exact_arithmetic_def)

lemma exact_entropy_as_sum:
  assumes "data \<noteq> []"
  shows "calculate_entropy exact_arithmetic data
     = - (\<Sum>c\<leftarrow>map snd (Counter data).
            (real c / real (length data)) * log 2 (real c / real (length data)))"
  using assms by (simp add: calculate_entropy_def exact_foldl_entropy_step)

lemma exact_entropy_nonneg:
  assumes "data \<noteq> []"
  shows "0 \<le> calculate_entropy exact_arithmetic data"
proof -
  let ?n = "length data"
  have n: "0 < ?n" using assms by simp
  have "(\<Sum>c\<leftarrow>map snd (Counter data). (real c / real ?n) * log 2 (real c / real ?n)) \<le> 0"
  proof (rule sum_list_nonpos)
    fix t
    assume "t \<in> set (map (\<lambda>c. (real c / real ?n) * log 2 (real c / real ?n))
                     (map snd (Counter data)))"
    then obtain c where c: "c \<in> set (map snd (Counter data))"
      and t: "t = (real c / real ?n) * log 2 (real c / real ?n)"
      by auto
    from positive_Counter [OF c] n have "0 < real c / real ?n" by simp
    moreover from count_le_length [OF c] n have "real c / real ?n \<le> 1" by simp
    ultimately show "t \<le> 0" unfolding t by (rule term_nonneg)
  qed
  then show ?thesis by (simp add: exact_entropy_as_sum [OF assms])
qed

lemma exact_entropy_le_8:
  assumes "data \<noteq> []"
  shows "calculate_entropy exact_arithmetic data \<le> 8"
proof -
  let ?n = "length data"
  let ?cs = "map snd (Counter data)"
  let ?a = "(8 - 1 / ln 2) / real ?n"
  let ?b = "1 / (256 * ln (2::real))"
  have n: "0 < ?n" using assms by simp
  have l2: "0 < ln (2::real)" by simp
  have "(\<Sum>c\<leftarrow>?cs. - ((real c / real ?n) * log 2 (real c / real ?n)))
          \<le> (\<Sum>c\<leftarrow>?cs. ?a * real c + ?b)"
  proof (rule sum_list_mono)
    fix c
    assume c: "c \<in> set ?cs"
    from positive_Counter [OF c] n have p: "0 < real c / real ?n" by simp
    have "8 * (real c / real ?n) + (1 / 256 - real c / real ?n) / ln 2 = ?a * real c + ?b"
      using n l2 by (simp add: field_simps)
    with term_upper [OF p]
    show "- ((real c / real ?n) * log 2 (real c / real ?n)) \<le> ?a * real c + ?b"
      by simp
  qed
  also have "\<dots> = ?a * real (sum_list ?cs) + ?b * real (length ?cs)"
    by (rule sum_list_affine)
  also have "\<dots> = (8 - 1 / ln 2) + real (card (set data)) / (256 * ln 2)"
    using n by (simp add: sum_Counter length_Counter)
  also have "\<dots> \<le> (8 - 1 / ln 2) + 256 / (256 * ln 2)"
    using card_bytes [of data] l2 by (intro add_left_mono divide_right_mono) simp_all
  also have "\<dots> = 8" using l2 by simp
  finally have "(\<Sum>c\<leftarrow>?cs. - ((real c / real ?n) * log 2 (real c / real ?n))) \<le> 8" .
  moreover have "calculate_entropy exact_arithmetic data
      = (\<Sum>c\<leftarrow>?cs. - ((real c / real ?n) * log 2 (real c / real ?n)))"
    by (simp only: exact_entropy_as_sum [OF assms] sum_list_negate)
  ultimately show ?thesis by simp
qed

lemma exact_is_binary64_rounding: "binary64_rounding exact_arithmetic"
proof -
  have "log 2 p \<le> 0" if "0 < p" "p \<le> 1" for p :: real
    using that by (simp add: log_le_zero_cancel_iff)
  then show ?thesis
    by (simp add: binary64_rounding_def exact_arithmetic_def log2_256th)
qed

text \<open>
  C3. With the rounding of binary64, the entropy of a non-empty buffer is at least 0, it is 0
  for a buffer of one repeated byte value, and it is 8 (so within 0.01 of 8) for a buffer in
  which each of the 256 byte values occurs equally often. The upper bound 8 holds of the sum
  computed without rounding; the rounded sum can exceed it in the last digits.
\<close>

theorem entropy_bounds_up_to_rounding:
  "(binary64_rounding fl \<and> data \<noteq> [] \<and> length data \<le> 2 ^ 1074
      \<longrightarrow> 0 \<le> calculate_entropy fl data)
   \<and> (binary64_rounding fl \<and> data \<noteq> [] \<and> set data = {b}
      \<longrightarrow> calculate_entropy fl data = 0)
   \<and> (binary64_rounding fl \<and> 0 < m \<and> (\<forall>b. count_list data b = m)
      \<longrightarrow> \<bar>calculate_entropy fl data - 8.0\<bar> \<le> 0.01)
   \<and> (data \<noteq> []
      \<longrightarrow> 0 \<le> calculate_entropy exact_arithmetic data
          \<and> calculate_entropy exact_arithmetic data \<le> 8)"
proof (intro conjI impI)
  assume "binary64_rounding fl \<and> data \<noteq> [] \<and> length data \<le> 2 ^ 1074"
  then show "0 \<le> calculate_entropy fl data" using float_entropy_nonneg by blast
next
  assume "binary64_rounding fl \<and> data \<noteq> [] \<and> set data = {b}"
  then show "calculate_entropy fl data = 0" using float_entropy_single_value by blast
next
  assume "binary64_rounding fl \<and> 0 < m \<and> (\<forall>b. count_list data b = m)"
  then have "calculate_entropy fl data = 8" using float_entropy_uniform by blast
  then show "\<bar>calculate_entropy fl data - 8.0\<bar> \<le> 0.01" by simp
next
  assume "data \<noteq> []"
  then show "0 \<le> calculate_entropy exact_arithmetic data" by (rule exact_entropy_nonneg)
next
  assume "data \<noteq> []"
  then show "calculate_entropy exact_arithmetic data \<le> 8" by (rule exact_entropy_le_8)
qed

theorem entropy_bounds_up_to_rounding_witness:
  "0 \<le> calculate_entropy exact_arithmetic (replicate 64 (CHR 0x00))
   \<and> calculate_entropy exact_arithmetic (replicate 64 (CHR 0x00)) \<le> 8
   \<and> calculate_entropy exact_arithmetic (replicate 64 (CHR 0x00)) = 0
   \<and> \<bar>calculate_entropy exact_arithmetic Enum.enum - 8.0\<bar> \<le> 0.01"
proof -
  let ?zeros = "replicate 64 (CHR 0x00)"
  have fl: "binary64_rounding exact_arithmetic" by (rule exact_is_binary64_rounding)
  have ne: "?zeros \<noteq> []" by simp
  have one: "set ?zeros = {CHR 0x00}" by simp
  have len: "length ?zeros \<le> 2 ^ 1074" by simp
  have m: "(0::nat) < 1" by simp
  note zeros = entropy_bounds_up_to_rounding [where fl = exact_arithmetic and data = ?zeros
      and b = "CHR 0x00" and m = 1]
  note all = entropy_bounds_up_to_rounding [where fl = exact_arithmetic and data = Enum.enum
      and b = "CHR 0x00" and m = 1]
  from zeros fl ne len have a: "0 \<le> calculate_entropy exact_arithmetic ?zeros" by blast
  from zeros ne have b: "calculate_entropy exact_arithmetic ?zeros \<le> 8" by blast
  from zeros fl ne one have c: "calculate_entropy exact_arithmetic ?zeros = 0" by blast
  from all fl m every_byte_once
  have d: "\<bar>calculate_entropy exact_arithmetic Enum.enum - 8.0\<bar> \<le> 0.01" by blast
  from a b c d show ?thesis by blast
qed

end
